theory Spec2Isabelle
  imports Complex_Main "HOL-Library.AList" "HOL-Library.Char_ord" "HOL-Library.List_Lexorder" "HOL-Library.Sublist"
begin

section \<open>Python values, events and the ledger\<close>

text \<open>
  The ledger of picosnitch (\<^verbatim>\<open>snitch\<close> in the source) is a dictionary with the keys
  Config, Errors, Latest Entries, Names, Processes and Remote Addresses. Dictionaries are
  maps, lists are lists, Python's unbounded integers are \<^typ>\<open>int\<close>, strings are
  \<^typ>\<open>string\<close> (one \<^typ>\<open>char\<close> for one character of the Python string).

  The list \<^verbatim>\<open>Config["Remote address unlog"]\<close> is read from a JSON file, and the table of
  known pids is keyed by whatever the code stores as a key: both hold integers or strings,
  and Python's \<^verbatim>\<open>in\<close> never finds an integer equal to a string.
\<close>

datatype pyval = PyInt int | PyStr string

text \<open>An exception: its class name and the text of \<^verbatim>\<open>str(e.args)\<close>.\<close>

datatype exn = Exn (exn_kind: string) (exn_args: string)

text \<open>
  A command line is a string in an exec event of the Producer and a list of strings in
  a psutil descriptor (or the string given as \<^verbatim>\<open>ad_value\<close>).
\<close>

datatype cmdline = Cmd_str string | Cmd_list "string list"

text \<open>The descriptor \<^verbatim>\<open>{name, exe, cmdline, pid}\<close> of a process.\<close>

record proc =
  name :: string
  exe :: string
  cmdline :: cmdline
  pid :: int

record conn =
  ip :: string
  port :: int

text \<open>
  The raw events the Producer puts on the queue:
  \<^verbatim>\<open>{"type": "exec", "pid", "name", "cmdline"}\<close> and
  \<^verbatim>\<open>{"type": "conn", "pid", "port", "ip"}\<close>.
\<close>

datatype event =
    Exec_event (ev_pid: int) (ev_name: string) (ev_cmdline: string)
  | Conn_event (ev_pid: int) (ev_port: int) (ev_ip: string)

text \<open>
  An entry of \<^verbatim>\<open>pending_list\<close>: an exec event with its \<^verbatim>\<open>exe\<close>, or a conn event enriched
  with the name, exe and cmdline of its process.
\<close>

datatype item =
    Exec_item proc
  | Conn_item proc conn

text \<open>
  A connection of \<^verbatim>\<open>psutil.net_connections\<close>: its pid, if known, and its remote address,
  if it has one.
\<close>

record sconn =
  sconn_pid :: "int option"
  sconn_raddr :: "(string \<times> int) option"

record analysis =
  malicious :: int
  suspicious :: int
  last_analysis_stats :: string

record config =
  Only_log_connections :: bool
  Remote_address_unlog :: "pyval list"
  VT_API_key :: string
  VT_file_upload :: bool
  VT_last_request :: real
  VT_limit_request :: real

record process_record =
  rec_name :: string
  cmdlines :: "string list"
  first_seen :: string
  last_seen :: string
  days_seen :: int
  ports :: "int list"
  remote_addresses :: "string list"
  results :: "string \<rightharpoonup> string"

record snitch =
  Config :: config
  Errors :: "string list"
  Latest_Entries :: "string list"
  Names :: "string \<rightharpoonup> string list"
  Processes :: "string \<rightharpoonup> process_record"
  Remote_Addresses :: "string \<rightharpoonup> string list"

text \<open>
  What the program asks of the operating system and of its libraries (socket, ipaddress,
  difflib, hashlib, vt, time, shlex, psutil, os.path and Python's \<^verbatim>\<open>str\<close> of a list, a
  dictionary or a tuple) is a parameter of the model: every theorem holds for any behaviour of
  these. A library call that can raise returns a sum, \<^term>\<open>Inl\<close> the exception.
  Times are the reals that the floats of \<^verbatim>\<open>time.time()\<close> denote.
\<close>

record env =
  socket_getnameinfo :: "string \<Rightarrow> exn + string"
  ipaddress_ip_address :: "string \<Rightarrow> bool"
  difflib_get_close_matches :: "string \<Rightarrow> string list \<Rightarrow> nat \<Rightarrow> real \<Rightarrow> string list"
  difflib_get_matching_blocks :: "string \<Rightarrow> string \<Rightarrow> (nat \<times> nat \<times> nat) list"
  hashlib_sha256_file :: "string \<Rightarrow> exn + string"
  vt_get_object :: "string \<Rightarrow> string \<Rightarrow> exn + analysis"
  vt_scan_file :: "string \<Rightarrow> string \<Rightarrow> exn + analysis"
  time_time :: real
  str_list :: "string list \<Rightarrow> string"
  str_event :: "event \<Rightarrow> string"
  str_item :: "item \<Rightarrow> string"
  shlex_split :: "string \<Rightarrow> exn + string list"
  psutil_Process_as_dict :: "int \<Rightarrow> exn + proc"
  os_path_isfile :: "string \<Rightarrow> bool"
  ip_is_private :: "string \<Rightarrow> exn + bool"
  str_proc :: "proc \<Rightarrow> string"
  str_sconn :: "sconn \<Rightarrow> string"

section \<open>String helpers of Python\<close>

text \<open>\<^verbatim>\<open>s.split(sep)\<close> for a one-character separator, and \<^verbatim>\<open>sep.join(l)\<close>.\<close>

fun split_sep :: "char \<Rightarrow> string \<Rightarrow> string list" where
  "split_sep sep [] = [[]]"
| "split_sep sep (c # cs) =
     (if c = sep then [] # split_sep sep cs
      else (case split_sep sep cs of
              [] \<Rightarrow> [[c]]
            | w # ws \<Rightarrow> (c # w) # ws))"

fun join_sep :: "string \<Rightarrow> string list \<Rightarrow> string" where
  "join_sep sep [] = []"
| "join_sep sep [w] = w"
| "join_sep sep (w # v # ws) = w @ sep @ join_sep sep (v # ws)"

text \<open>
  \<^verbatim>\<open>s.split()\<close>: the maximal runs of characters that are not whitespace. Among the
  first 256 characters, whitespace is 9 to 13, 28 to 32, 133 and 160.
\<close>

definition is_space :: "char \<Rightarrow> bool" where
  "is_space c =
     (let n = (of_char c :: nat)
      in (9 \<le> n \<and> n \<le> 13) \<or> (28 \<le> n \<and> n \<le> 32) \<or> n = 133 \<or> n = 160)"

fun split_ws_from :: "string \<Rightarrow> string \<Rightarrow> string list" where
  "split_ws_from cur [] = (if cur = [] then [] else [cur])"
| "split_ws_from cur (c # cs) =
     (if is_space c then (if cur = [] then split_ws_from [] cs else cur # split_ws_from [] cs)
      else split_ws_from (cur @ [c]) cs)"

definition split_ws :: "string \<Rightarrow> string list" where
  "split_ws s = split_ws_from [] s"

text \<open>\<^verbatim>\<open>l.index(x)\<close>: the first position of \<open>x\<close>, or ValueError.\<close>

fun index_of :: "'a \<Rightarrow> 'a list \<Rightarrow> nat option" where
  "index_of x [] = None"
| "index_of x (y # ys) = (if x = y then Some 0 else map_option Suc (index_of x ys))"

text \<open>\<^verbatim>\<open>l.insert(i, x)\<close> for \<open>i \<ge> 0\<close>: past the end it appends.\<close>

definition list_insert :: "nat \<Rightarrow> 'a \<Rightarrow> 'a list \<Rightarrow> 'a list" where
  "list_insert i x l = take i l @ x # drop i l"

section \<open>The helpers of the source\<close>

definition reverse_dns_lookup :: "env \<Rightarrow> string \<Rightarrow> string" where
  "reverse_dns_lookup env addr =
     (case socket_getnameinfo env addr of Inr host \<Rightarrow> host | Inl e \<Rightarrow> addr)"

definition reverse_domain_name :: "env \<Rightarrow> string \<Rightarrow> string" where
  "reverse_domain_name env dns =
     (if ipaddress_ip_address env dns then dns
      else join_sep ''.'' (rev (split_sep (CHR ''.'') dns)))"

definition get_sha256 :: "env \<Rightarrow> string \<Rightarrow> string" where
  "get_sha256 env path =
     (case hashlib_sha256_file env path of
        Inr digest \<Rightarrow> digest
      | Inl e \<Rightarrow> ''0000000000000000000000000000000000000000000000000000000000000000'')"

text \<open>
  \<^verbatim>\<open>get_vt_results\<close> returns its string and the configuration with the time of the request
  stored. The lookup that fails is caught; the upload (opening the executable, then
  \<^verbatim>\<open>scan_file\<close>) is not, so its exception leaves the function. Sleeping changes no state.
\<close>

definition str_analysis :: "analysis \<Rightarrow> string" where
  "str_analysis a = last_analysis_stats a"

definition get_vt_results :: "env \<Rightarrow> string \<Rightarrow> proc \<Rightarrow> config \<Rightarrow> (exn + string) \<times> config" where
  "get_vt_results env sha256 p cfg =
     (if VT_API_key cfg \<noteq> [] then
        (let cfg1 = cfg\<lparr>VT_last_request := time_time env\<rparr> in
         case vt_get_object env (VT_API_key cfg) sha256 of
           Inr a \<Rightarrow> (Inr (str_analysis a), cfg1)
         | Inl e \<Rightarrow>
             (if VT_file_upload cfg1 then
                (case vt_scan_file env (VT_API_key cfg) (exe p) of
                   Inr a \<Rightarrow> (Inr (str_analysis a), cfg1)
                 | Inl e2 \<Rightarrow> (Inl e2, cfg1))
              else (Inr ''File not analyzed (analysis not found)'', cfg1)))
      else (Inr ''File not analyzed (no api key)'', cfg))"

text \<open>
  \<^verbatim>\<open>get_common_pattern\<close>. The loop over the matching blocks \<open>(a, b, size)\<close> pads the
  pattern with stars up to the block's position in \<open>a\<close> (no star when the pattern is
  already longer: a string times a negative number is empty) and adds the block's slice
  of \<open>a\<close>.
\<close>

fun common_pattern_blocks :: "string \<Rightarrow> (nat \<times> nat \<times> nat) list \<Rightarrow> string \<Rightarrow> string" where
  "common_pattern_blocks a [] common_pattern = common_pattern"
| "common_pattern_blocks a ((ma, mb, msize) # ms) common_pattern =
     common_pattern_blocks a ms
       ((common_pattern @ replicate (ma - length common_pattern) (CHR ''*''))
          @ take msize (drop ma a))"

text \<open>\<^verbatim>\<open>while l.count(common_pattern) > 1: l.remove(common_pattern)\<close>\<close>

function remove_repeated :: "'a \<Rightarrow> 'a list \<Rightarrow> 'a list" where
  "remove_repeated x l = (if count_list l x > 1 then remove_repeated x (remove1 x l) else l)"
  by pat_completeness auto
termination
proof (relation "measure (\<lambda>(x, l). length l)")
  show "wf (measure (\<lambda>(x, l). length l))" by simp
next
  fix x :: 'a and l :: "'a list"
  assume "1 < count_list l x"
  then have "x \<in> set l" by (metis count_notin not_less_zero)
  then have "length (remove1 x l) < length l"
    by (simp add: length_remove1) (cases l; simp)
  then show "((x, remove1 x l), (x, l)) \<in> measure (\<lambda>(x, l). length l)" by simp
qed

declare remove_repeated.simps [simp del]

definition get_common_pattern :: "env \<Rightarrow> string \<Rightarrow> string list \<Rightarrow> real \<Rightarrow> exn + string list" where
  "get_common_pattern env a l cutoff =
     (case difflib_get_close_matches env a l 1 cutoff of
        b0 # bs \<Rightarrow>
          (let common_pattern = common_pattern_blocks a (difflib_get_matching_blocks env a b0) [] in
           case index_of b0 l of
             None \<Rightarrow> Inl (Exn ''ValueError'' ''not in list'')
           | Some i \<Rightarrow> Inr (remove_repeated common_pattern (l[i := common_pattern])))
      | [] \<Rightarrow> Inr (l @ [a]))"

section \<open>update_snitch\<close>

text \<open>
  \<^verbatim>\<open>str(proc["cmdline"])\<close>: a string is itself, a list is Python's text of the list.
\<close>

definition str_cmdline :: "env \<Rightarrow> cmdline \<Rightarrow> string" where
  "str_cmdline env c = (case c of Cmd_str s \<Rightarrow> s | Cmd_list l \<Rightarrow> str_list env l)"

text \<open>
  The test the source writes three times:
  \<^verbatim>\<open>conn["port"] not in unlog and proc["name"] not in unlog\<close>. The port is an integer
  and the name a string.
\<close>

definition not_unlogged :: "config \<Rightarrow> proc \<Rightarrow> conn \<Rightarrow> bool" where
  "not_unlogged cfg p c =
     (PyInt (port c) \<notin> set (Remote_address_unlog cfg) \<and>
      PyStr (name p) \<notin> set (Remote_address_unlog cfg))"

text \<open>Lines 261 and 262: Update Latest Entries.\<close>

definition update_latest_entries :: "snitch \<Rightarrow> proc \<Rightarrow> string \<Rightarrow> snitch" where
  "update_latest_entries s p ctime =
     (if Processes s (exe p) = None \<or> Names s (name p) = None
      then s\<lparr>Latest_Entries := Latest_Entries s @ [ctime @ '' '' @ name p @ '' - '' @ exe p]\<rparr>
      else s)"

text \<open>Lines 264 to 270: Update Names. The toasts change no state.\<close>

definition update_names :: "snitch \<Rightarrow> proc \<Rightarrow> conn \<Rightarrow> snitch" where
  "update_names s p c =
     (case Names s (name p) of
        Some exes \<Rightarrow>
          (if exe p \<notin> set exes then s\<lparr>Names := (Names s)(name p \<mapsto> exes @ [exe p])\<rparr> else s)
      | None \<Rightarrow>
          (if ip c \<noteq> [] \<or> port c \<noteq> 0 then s\<lparr>Names := (Names s)(name p \<mapsto> [exe p])\<rparr> else s))"

text \<open>
  Lines 273 to 284: the record of a new executable. The dictionary is built, with the
  call of \<^verbatim>\<open>get_vt_results\<close> in it, before it is stored: when the call raises, nothing
  is stored, and the configuration keeps the time of the request.
\<close>

definition new_process_record ::
  "env \<Rightarrow> config \<Rightarrow> proc \<Rightarrow> conn \<Rightarrow> string \<Rightarrow> string \<Rightarrow> string \<Rightarrow> (exn + process_record) \<times> config" where
  "new_process_record env cfg p c sha256 ctime reversed_dns =
     (case get_vt_results env sha256 p cfg of
        (Inl e, cfg1) \<Rightarrow> (Inl e, cfg1)
      | (Inr r, cfg1) \<Rightarrow>
          (let entry = \<lparr>rec_name = name p,
                        cmdlines = [str_cmdline env (cmdline p)],
                        first_seen = ctime,
                        last_seen = ctime,
                        days_seen = 1,
                        ports = [port c],
                        remote_addresses = [],
                        results = [sha256 \<mapsto> r]\<rparr>
           in (Inr (if not_unlogged cfg1 p c
                    then entry\<lparr>remote_addresses := remote_addresses entry @ [reversed_dns]\<rparr>
                    else entry), cfg1)))"

text \<open>
  Lines 286 to 302: the record of a known executable, changed in place one field after the
  other. An exception (of \<^verbatim>\<open>l.index\<close> in \<^verbatim>\<open>get_common_pattern\<close>, or of
  \<^verbatim>\<open>get_vt_results\<close>) leaves the fields changed so far and skips the rest.
\<close>

definition entry_name :: "process_record \<Rightarrow> proc \<Rightarrow> process_record" where
  "entry_name entry p =
     (if \<not> sublist (name p) (rec_name entry)
      then entry\<lparr>rec_name := rec_name entry @ '' alternative='' @ name p\<rparr>
      else entry)"

definition entry_cmdlines :: "env \<Rightarrow> process_record \<Rightarrow> proc \<Rightarrow> exn + process_record" where
  "entry_cmdlines env entry p =
     (if str_cmdline env (cmdline p) \<notin> set (cmdlines entry) then
        (case get_common_pattern env (str_cmdline env (cmdline p)) (cmdlines entry) (8 / 10) of
           Inl e \<Rightarrow> Inl e
         | Inr l \<Rightarrow> Inr (entry\<lparr>cmdlines := sort l\<rparr>))
      else Inr entry)"

definition entry_ports :: "process_record \<Rightarrow> conn \<Rightarrow> process_record" where
  "entry_ports entry c =
     (if port c \<notin> set (ports entry)
      then entry\<lparr>ports := sort (ports entry @ [port c])\<rparr>
      else entry)"

definition entry_remote_addresses ::
  "config \<Rightarrow> process_record \<Rightarrow> proc \<Rightarrow> conn \<Rightarrow> string \<Rightarrow> process_record" where
  "entry_remote_addresses cfg entry p c reversed_dns =
     (if reversed_dns \<notin> set (remote_addresses entry) then
        (if not_unlogged cfg p c
         then entry\<lparr>remote_addresses := remote_addresses entry @ [reversed_dns]\<rparr>
         else entry)
      else entry)"

definition entry_results ::
  "env \<Rightarrow> config \<Rightarrow> process_record \<Rightarrow> proc \<Rightarrow> string \<Rightarrow> (exn + process_record) \<times> config" where
  "entry_results env cfg entry p sha256 =
     (if results entry sha256 = None then
        (case get_vt_results env sha256 p cfg of
           (Inl e, cfg1) \<Rightarrow> (Inl e, cfg1)
         | (Inr r, cfg1) \<Rightarrow> (Inr (entry\<lparr>results := (results entry)(sha256 \<mapsto> r)\<rparr>), cfg1))
      else (Inr entry, cfg))"

definition entry_seen :: "process_record \<Rightarrow> string \<Rightarrow> process_record" where
  "entry_seen entry ctime =
     (let entry1 = (if take 3 (split_ws ctime) \<noteq> take 3 (split_ws (last_seen entry))
                    then entry\<lparr>days_seen := days_seen entry + 1\<rparr>
                    else entry)
      in entry1\<lparr>last_seen := ctime\<rparr>)"

text \<open>
  The result is the exception that stopped the update, if one did, the record as the
  update left it, and the configuration.
\<close>

definition update_process_record ::
  "env \<Rightarrow> config \<Rightarrow> process_record \<Rightarrow> proc \<Rightarrow> conn \<Rightarrow> string \<Rightarrow> string \<Rightarrow> string
     \<Rightarrow> exn option \<times> process_record \<times> config" where
  "update_process_record env cfg entry p c sha256 ctime reversed_dns =
     (let entry1 = entry_name entry p in
      case entry_cmdlines env entry1 p of
        Inl e \<Rightarrow> (Some e, entry1, cfg)
      | Inr entry2 \<Rightarrow>
          (let entry3 = entry_ports entry2 c;
               entry4 = entry_remote_addresses cfg entry3 p c reversed_dns in
           case entry_results env cfg entry4 p sha256 of
             (Inl e, cfg1) \<Rightarrow> (Some e, entry4, cfg1)
           | (Inr entry5, cfg1) \<Rightarrow> (None, entry_seen entry5 ctime, cfg1)))"

text \<open>Lines 272 to 302: Update Processes.\<close>

definition update_processes ::
  "env \<Rightarrow> snitch \<Rightarrow> proc \<Rightarrow> conn \<Rightarrow> string \<Rightarrow> string \<Rightarrow> string \<Rightarrow> exn option \<times> snitch" where
  "update_processes env s p c sha256 ctime reversed_dns =
     (case Processes s (exe p) of
        None \<Rightarrow>
          (case new_process_record env (Config s) p c sha256 ctime reversed_dns of
             (Inl e, cfg1) \<Rightarrow> (Some e, s\<lparr>Config := cfg1\<rparr>)
           | (Inr entry, cfg1) \<Rightarrow>
               (None, s\<lparr>Config := cfg1, Processes := (Processes s)(exe p \<mapsto> entry)\<rparr>))
      | Some entry \<Rightarrow>
          (case update_process_record env (Config s) entry p c sha256 ctime reversed_dns of
             (r, entry1, cfg1) \<Rightarrow>
               (r, s\<lparr>Config := cfg1, Processes := (Processes s)(exe p \<mapsto> entry1)\<rparr>)))"

text \<open>Lines 304 to 311: Update Remote Addresses.\<close>

definition update_remote_addresses :: "snitch \<Rightarrow> proc \<Rightarrow> conn \<Rightarrow> string \<Rightarrow> string \<Rightarrow> snitch" where
  "update_remote_addresses s p c ctime reversed_dns =
     (case Remote_Addresses s reversed_dns of
        Some l \<Rightarrow>
          (if exe p \<notin> set l then
             (let l1 = list_insert 1 (exe p) l;
                  l2 = (if ''No processes found during polling'' \<in> set l1
                        then remove1 ''No processes found during polling'' l1
                        else l1)
              in s\<lparr>Remote_Addresses := (Remote_Addresses s)(reversed_dns \<mapsto> l2)\<rparr>)
           else s)
      | None \<Rightarrow>
          (if not_unlogged (Config s) p c
           then s\<lparr>Remote_Addresses :=
                    (Remote_Addresses s)(reversed_dns \<mapsto> [''First connection: '' @ ctime, exe p])\<rparr>
           else s))"

text \<open>
  \<^verbatim>\<open>update_snitch\<close> changes the ledger in place, so an exception leaves the changes made
  before it: the result is the exception, if any, and the ledger after the call.
\<close>

definition update_snitch ::
  "env \<Rightarrow> snitch \<Rightarrow> proc \<Rightarrow> conn \<Rightarrow> string \<Rightarrow> string \<Rightarrow> exn option \<times> snitch" where
  "update_snitch env s p c sha256 ctime =
     (let reversed_dns = reverse_domain_name env (reverse_dns_lookup env (ip c));
          s1 = update_latest_entries s p ctime;
          s2 = update_names s1 p c
      in case update_processes env s2 p c sha256 ctime reversed_dns of
           (Some e, s3) \<Rightarrow> (Some e, s3)
         | (None, s3) \<Rightarrow> (None, update_remote_addresses s3 p c ctime reversed_dns))"

section \<open>process_queue\<close>

text \<open>
  Lines 216 to 218: the executable of an exec event is the first word of its command
  line, or the second when the first is \<^verbatim>\<open>exec\<close>. \<^verbatim>\<open>shlex.split\<close> can raise ValueError,
  and a word that is not there is an IndexError.
\<close>

definition exec_exe :: "env \<Rightarrow> string \<Rightarrow> exn + string" where
  "exec_exe env cl =
     (case shlex_split env cl of
        Inl e \<Rightarrow> Inl e
      | Inr ws \<Rightarrow>
          (case ws of
             [] \<Rightarrow> Inl (Exn ''IndexError'' ''('list index out of range',)'')
           | w0 # rest \<Rightarrow>
               (if w0 = ''exec'' then
                  (case rest of
                     [] \<Rightarrow> Inl (Exn ''IndexError'' ''('list index out of range',)'')
                   | w1 # rest1 \<Rightarrow> Inr w1)
                else Inr w0)))"

text \<open>
  A conn event with the name, exe and cmdline of the entry of its pid (lines 224 to 227
  and 235 to 238). An exec event met in the list of missed connections would get the three
  keys overwritten the same way.
\<close>

definition enrich :: "event \<Rightarrow> proc \<Rightarrow> item" where
  "enrich ev known =
     (case ev of
        Conn_event p po a \<Rightarrow>
          Conn_item \<lparr>name = name known, exe = exe known, cmdline = cmdline known, pid = p\<rparr>
                    \<lparr>ip = a, port = po\<rparr>
      | Exec_event p n cl \<Rightarrow>
          Exec_item \<lparr>name = name known, exe = exe known, cmdline = cmdline known, pid = p\<rparr>)"

text \<open>
  Lines 214 to 232, the loop over \<^verbatim>\<open>new_processes\<close>. Nothing catches an exception here:
  it leaves \<^verbatim>\<open>process_queue\<close>, and \<^verbatim>\<open>loop\<close>, which calls it, catches nothing either.
\<close>

fun queue_new_processes ::
  "env \<Rightarrow> bool \<Rightarrow> event list \<Rightarrow> (pyval \<rightharpoonup> proc) \<Rightarrow> item list \<Rightarrow> event list
     \<Rightarrow> exn + ((pyval \<rightharpoonup> proc) \<times> item list \<times> event list)" where
  "queue_new_processes env only_log [] known_pids pending_list pending_conns =
     Inr (known_pids, pending_list, pending_conns)"
| "queue_new_processes env only_log (Exec_event p n cl # evs) known_pids pending_list pending_conns =
     (case exec_exe env cl of
        Inl e \<Rightarrow> Inl e
      | Inr x \<Rightarrow>
          (let pr = \<lparr>name = n, exe = x, cmdline = Cmd_str cl, pid = p\<rparr> in
           queue_new_processes env only_log evs (known_pids(PyInt p \<mapsto> pr))
             (if \<not> only_log then pending_list @ [Exec_item pr] else pending_list)
             pending_conns))"
| "queue_new_processes env only_log (Conn_event p po a # evs) known_pids pending_list pending_conns =
     (case known_pids (PyInt p) of
        Some known \<Rightarrow>
          queue_new_processes env only_log evs known_pids
            (pending_list @ [enrich (Conn_event p po a) known]) pending_conns
      | None \<Rightarrow>
          (case psutil_Process_as_dict env p of
             Inl e \<Rightarrow> Inl e
           | Inr proc_psutil \<Rightarrow>
               queue_new_processes env only_log evs
                 (if exe proc_psutil \<noteq> [] then known_pids(PyInt (pid proc_psutil) \<mapsto> proc_psutil)
                  else known_pids)
                 pending_list (pending_conns @ [Conn_event p po a])))"

text \<open>Lines 233 to 240, the loop over \<^verbatim>\<open>missed_conns\<close>.\<close>

fun queue_missed_conns ::
  "env \<Rightarrow> string \<Rightarrow> event list \<Rightarrow> (pyval \<rightharpoonup> proc) \<Rightarrow> snitch \<Rightarrow> item list \<Rightarrow> snitch \<times> item list" where
  "queue_missed_conns env ctime [] known_pids s pending_list = (s, pending_list)"
| "queue_missed_conns env ctime (ev # evs) known_pids s pending_list =
     (case known_pids (PyInt (ev_pid ev)) of
        Some known \<Rightarrow>
          queue_missed_conns env ctime evs known_pids s (pending_list @ [enrich ev known])
      | None \<Rightarrow>
          queue_missed_conns env ctime evs known_pids
            (s\<lparr>Errors := Errors s @ [ctime @ '' no known process for conn: '' @ str_event env ev]\<rparr>)
            pending_list)"

text \<open>
  Lines 241 to 252, the loop over \<^verbatim>\<open>pending_list\<close>: here an exception of
  \<^verbatim>\<open>update_snitch\<close> is caught and written to Errors.
\<close>

definition item_proc :: "item \<Rightarrow> proc" where
  "item_proc it = (case it of Exec_item p \<Rightarrow> p | Conn_item p c \<Rightarrow> p)"

definition item_conn :: "item \<Rightarrow> conn" where
  "item_conn it = (case it of Exec_item p \<Rightarrow> \<lparr>ip = [], port = 0\<rparr> | Conn_item p c \<Rightarrow> c)"

definition update_item :: "env \<Rightarrow> string \<Rightarrow> item \<Rightarrow> snitch \<Rightarrow> snitch" where
  "update_item env ctime it s =
     (let c = item_conn it;
          sha256 = get_sha256 env (exe (item_proc it))
      in case update_snitch env s (item_proc it) c sha256 ctime of
           (None, s1) \<Rightarrow> s1
         | (Some e, s1) \<Rightarrow>
             s1\<lparr>Errors := Errors s1 @ [ctime @ '' '' @ (exn_kind e @ exn_args e @ str_item env it)]\<rparr>)"

fun update_pending :: "env \<Rightarrow> string \<Rightarrow> item list \<Rightarrow> snitch \<Rightarrow> snitch" where
  "update_pending env ctime [] s = s"
| "update_pending env ctime (it # its) s = update_pending env ctime its (update_item env ctime it s)"

text \<open>
  \<^verbatim>\<open>process_queue\<close>: the exception that left it, or the ledger, the table of pids and the
  list \<^verbatim>\<open>pending_conns\<close> it returns. The time \<^verbatim>\<open>time.ctime()\<close> is a parameter.
\<close>

definition process_queue ::
  "env \<Rightarrow> string \<Rightarrow> snitch \<Rightarrow> (pyval \<rightharpoonup> proc) \<Rightarrow> event list \<Rightarrow> event list
     \<Rightarrow> exn + (snitch \<times> (pyval \<rightharpoonup> proc) \<times> event list)" where
  "process_queue env ctime s known_pids missed_conns new_processes =
     (case queue_new_processes env (Only_log_connections (Config s)) new_processes known_pids [] [] of
        Inl e \<Rightarrow> Inl e
      | Inr (known_pids1, pending_list, pending_conns) \<Rightarrow>
          (case queue_missed_conns env ctime missed_conns known_pids1 s pending_list of
             (s1, pending_list1) \<Rightarrow>
               Inr (update_pending env ctime pending_list1 s1, known_pids1, pending_conns)))"

section \<open>initial_poll\<close>

text \<open>
  Lines 176 to 179, the loop over \<^verbatim>\<open>psutil.process_iter\<close>, whose descriptors are the list
  \<open>running\<close>. \<^verbatim>\<open>current_processes\<close> is a dictionary in the order of insertion. The table
  of pids is written at the key \<^verbatim>\<open>"pid"\<close>, a string.
\<close>

fun poll_processes ::
  "env \<Rightarrow> proc list \<Rightarrow> (string \<times> proc) list \<Rightarrow> (pyval \<rightharpoonup> proc)
     \<Rightarrow> (string \<times> proc) list \<times> (pyval \<rightharpoonup> proc)" where
  "poll_processes env [] current_processes known_pids = (current_processes, known_pids)"
| "poll_processes env (info # running) current_processes known_pids =
     (if os_path_isfile env (exe info)
      then poll_processes env running (AList.update (exe info) info current_processes)
             (known_pids(PyStr ''pid'' \<mapsto> info))
      else poll_processes env running current_processes known_pids)"

text \<open>
  Lines 181 to 197, the loop over the connections. The variable \<^verbatim>\<open>proc\<close> keeps the last
  descriptor read (\<open>None\<close> is the first one, whose pid is the empty string).
\<close>

definition init_error :: "env \<Rightarrow> exn \<Rightarrow> sconn \<Rightarrow> proc option \<Rightarrow> string" where
  "init_error env e cn pr =
     (''Init '' @ exn_kind e @ exn_args e @ str_sconn env cn) @
     (case (sconn_pid cn, pr) of
        (Some cp, Some p) \<Rightarrow> (if cp = pid p then str_proc env p else ''{process no longer exists}'')
      | _ \<Rightarrow> ''{process no longer exists}'')"

fun poll_connections ::
  "env \<Rightarrow> string \<Rightarrow> sconn list \<Rightarrow> proc option \<Rightarrow> (string \<times> proc) list \<Rightarrow> snitch
     \<Rightarrow> (string \<times> proc) list \<times> snitch" where
  "poll_connections env ctime [] pr current_processes s = (current_processes, s)"
| "poll_connections env ctime (cn # cns) pr current_processes s =
     (case (sconn_pid cn, sconn_raddr cn) of
        (Some cp, Some (a, po)) \<Rightarrow>
          (case ip_is_private env a of
             Inl e \<Rightarrow>
               poll_connections env ctime cns pr current_processes
                 (s\<lparr>Errors := Errors s @ [ctime @ '' '' @ init_error env e cn pr]\<rparr>)
           | Inr True \<Rightarrow> poll_connections env ctime cns pr current_processes s
           | Inr False \<Rightarrow>
               (case psutil_Process_as_dict env cp of
                  Inl e \<Rightarrow>
                    poll_connections env ctime cns pr current_processes
                      (s\<lparr>Errors := Errors s @ [ctime @ '' '' @ init_error env e cn pr]\<rparr>)
                | Inr p \<Rightarrow>
                    (let current1 = AList.delete (exe p) current_processes in
                     case update_snitch env s p \<lparr>ip = a, port = po\<rparr> (get_sha256 env (exe p)) ctime of
                       (None, s1) \<Rightarrow> poll_connections env ctime cns (Some p) current1 s1
                     | (Some e, s1) \<Rightarrow>
                         poll_connections env ctime cns (Some p) current1
                           (s1\<lparr>Errors := Errors s1 @ [ctime @ '' '' @ init_error env e cn (Some p)]\<rparr>))))
      | _ \<Rightarrow> poll_connections env ctime cns pr current_processes s)"

text \<open>Lines 198 to 206, the processes without a connection.\<close>

fun poll_remaining :: "env \<Rightarrow> string \<Rightarrow> proc list \<Rightarrow> snitch \<Rightarrow> snitch" where
  "poll_remaining env ctime [] s = s"
| "poll_remaining env ctime (p # ps) s =
     (case update_snitch env s p \<lparr>ip = [], port = 0\<rparr> (get_sha256 env (exe p)) ctime of
        (None, s1) \<Rightarrow> poll_remaining env ctime ps s1
      | (Some e, s1) \<Rightarrow>
          poll_remaining env ctime ps
            (s1\<lparr>Errors := Errors s1 @ [ctime @ '' '' @ (''Init '' @ exn_kind e @ exn_args e @ str_proc env p)]\<rparr>))"

text \<open>
  \<^verbatim>\<open>initial_poll\<close>, given what \<^verbatim>\<open>psutil.process_iter\<close> and \<^verbatim>\<open>psutil.net_connections\<close>
  return: the ledger and the table of pids after it.
\<close>

definition initial_poll ::
  "env \<Rightarrow> string \<Rightarrow> proc list \<Rightarrow> sconn list \<Rightarrow> snitch \<Rightarrow> (pyval \<rightharpoonup> proc)
     \<Rightarrow> snitch \<times> (pyval \<rightharpoonup> proc)" where
  "initial_poll env ctime running current_connections s known_pids =
     (case poll_processes env running [] known_pids of
        (current_processes, known_pids1) \<Rightarrow>
          (case poll_connections env ctime current_connections None current_processes s of
             (current_processes1, s1) \<Rightarrow>
               (if \<not> Only_log_connections (Config s1)
                then (poll_remaining env ctime (map snd current_processes1) s1, known_pids1)
                else (s1, known_pids1))))"

section \<open>snitch_monitor\<close>

text \<open>
  The Supervisor. Its state is the number of Producer processes it has started (the
  current \<^verbatim>\<open>p_snitch_sub\<close> is the last of them), the Producers it has run
  \<^verbatim>\<open>terminate_subprocess\<close> on, \<^verbatim>\<open>time_last_start\<close> and what it has put on \<^verbatim>\<open>q_error\<close>.
  One turn of its loop reads the outside world: whether the Producer is alive, its memory,
  the clock, the queue \<^verbatim>\<open>q_term\<close> (\<open>None\<close> is \<^verbatim>\<open>queue.Empty\<close> after the 10 seconds),
  whether the parent is alive. These readings are the \<open>observation\<close> of the turn.

  Line 443 subtracts two floats, and the difference of two floats is rounded. The model
  does not compute it from the clock: \<open>time_difference\<close> is the float that
  \<^verbatim>\<open>time.time() - time_last_start\<close> evaluates to in this turn, as the real it denotes,
  and every theorem holds whatever that float is.
\<close>

record monitor =
  started :: nat
  terminated :: "nat list"
  time_last_start :: real
  q_error :: "string list"

record observation =
  sub_is_alive :: bool
  memory_vms :: "exn + int"
  time_difference :: real
  time_started :: real
  q_term_get :: "string option"
  parent_is_alive :: bool
  sub_is_alive_after :: bool

datatype outcome = Continue | Break | Raised exn

text \<open>Lines 438 to 442.\<close>

definition restart_for_memory :: "observation \<Rightarrow> monitor \<Rightarrow> monitor" where
  "restart_for_memory ob m =
     m\<lparr>q_error := q_error m @ [''Snitch subprocess memory usage exceeded 512 MB, restarting snitch''],
       terminated := terminated m @ [started m],
       started := started m + 1,
       time_last_start := time_started ob\<rparr>"

text \<open>Lines 444 to 447.\<close>

definition restart_dead :: "observation \<Rightarrow> monitor \<Rightarrow> monitor" where
  "restart_dead ob m =
     m\<lparr>q_error := q_error m @ [''Snitch subprocess died, restarting snitch''],
       started := started m + 1,
       time_last_start := time_started ob\<rparr>"

text \<open>Lines 436 to 447: the health check of one turn.\<close>

definition health_check :: "observation \<Rightarrow> monitor \<Rightarrow> exn + monitor" where
  "health_check ob m =
     (if sub_is_alive ob then
        (case memory_vms ob of
           Inl e \<Rightarrow> Inl e
         | Inr vms \<Rightarrow> Inr (if vms > 512000000 then restart_for_memory ob m else m))
      else if time_difference ob > 300 then Inr (restart_dead ob m)
      else Inr m)"

text \<open>Lines 448 to 453: the wait on \<^verbatim>\<open>q_term\<close>. A token that is not empty is true.\<close>

definition wait_term :: "observation \<Rightarrow> outcome" where
  "wait_term ob =
     (case q_term_get ob of
        Some token \<Rightarrow> (if token \<noteq> [] then Break else Continue)
      | None \<Rightarrow>
          (if \<not> parent_is_alive ob \<or> \<not> sub_is_alive_after ob then Break else Continue))"

definition monitor_iteration :: "observation \<Rightarrow> monitor \<Rightarrow> outcome \<times> monitor" where
  "monitor_iteration ob m =
     (case health_check ob m of
        Inl e \<Rightarrow> (Raised e, m)
      | Inr m1 \<Rightarrow> (wait_term ob, m1))"

text \<open>
  The loop \<^verbatim>\<open>while True\<close> over the observations of its turns, one after the other. When
  the list ends before the loop does, the loop is still running (\<open>Continue\<close>).
\<close>

fun monitor_loop :: "observation list \<Rightarrow> monitor \<Rightarrow> outcome \<times> monitor" where
  "monitor_loop [] m = (Continue, m)"
| "monitor_loop (ob # obs) m =
     (case monitor_iteration ob m of
        (Continue, m1) \<Rightarrow> monitor_loop obs m1
      | (Break, m1) \<Rightarrow> (Break, m1)
      | (Raised e, m1) \<Rightarrow> (Raised e, m1))"

text \<open>
  \<^verbatim>\<open>snitch_monitor\<close> on a platform that is Linux or not, with the clock's reading at the
  first start: what it returns, if it does, and its state then.
\<close>

datatype monitor_exit = Returned int | Uncaught exn | Running

definition snitch_monitor :: "bool \<Rightarrow> real \<Rightarrow> observation list \<Rightarrow> monitor_exit \<times> monitor" where
  "snitch_monitor linux t0 obs =
     (if linux then
        (case monitor_loop obs \<lparr>started = 1, terminated = [], time_last_start = t0, q_error = []\<rparr> of
           (Break, m) \<Rightarrow> (Returned 0, m\<lparr>terminated := terminated m @ [started m]\<rparr>)
         | (Raised e, m) \<Rightarrow> (Uncaught e, m)
         | (Continue, m) \<Rightarrow> (Running, m))
      else (Returned 1, \<lparr>started = 0, terminated = [], time_last_start = t0,
                          q_error = [''Did not detect a supported operating system'']\<rparr>))"

section \<open>A concrete environment and ledger\<close>

text \<open>
  An environment for the examples: no address resolves and every address is taken as an
  IP literal, difflib finds no close match, no file can be read, VirusTotal knows no file
  and no upload works, no process can be looked up, and every executable exists.
\<close>

definition env0 :: env where
  "env0 =
     \<lparr>socket_getnameinfo = (\<lambda>a. Inl (Exn ''gaierror'' ''()'')),
      ipaddress_ip_address = (\<lambda>d. True),
      difflib_get_close_matches = (\<lambda>a l n cutoff. []),
      difflib_get_matching_blocks = (\<lambda>a b. []),
      hashlib_sha256_file = (\<lambda>f. Inl (Exn ''FileNotFoundError'' ''()'')),
      vt_get_object = (\<lambda>k h. Inl (Exn ''APIError'' ''()'')),
      vt_scan_file = (\<lambda>k f. Inl (Exn ''FileNotFoundError'' ''()'')),
      time_time = 0,
      str_list = (\<lambda>l. concat l),
      str_event = (\<lambda>ev. ''{conn}''),
      str_item = (\<lambda>it. ''{item}''),
      shlex_split = (\<lambda>cl. Inr (split_sep (CHR '' '') cl)),
      psutil_Process_as_dict = (\<lambda>p. Inl (Exn ''NoSuchProcess'' ''()'')),
      os_path_isfile = (\<lambda>f. True),
      ip_is_private = (\<lambda>a. Inr False),
      str_proc = (\<lambda>p. ''{proc}''),
      str_sconn = (\<lambda>c. ''sconn()'')\<rparr>"

text \<open>The configuration of the template of \<^verbatim>\<open>read\<close>, and the empty ledger with it.\<close>

definition config0 :: config where
  "config0 =
     \<lparr>Only_log_connections = True,
      Remote_address_unlog = [PyStr ''firefox''],
      VT_API_key = [],
      VT_file_upload = False,
      VT_last_request = 0,
      VT_limit_request = 15\<rparr>"

definition snitch0 :: snitch where
  "snitch0 =
     \<lparr>Config = config0, Errors = [], Latest_Entries = [],
      Names = Map.empty, Processes = Map.empty, Remote_Addresses = Map.empty\<rparr>"

text \<open>The process and the connection of the first scenario of the specification.\<close>

definition proc_curl :: proc where
  "proc_curl = \<lparr>name = ''curl'', exe = ''curl'', cmdline = Cmd_str ''curl http://1.2.3.4/'', pid = 100\<rparr>"

definition conn_80 :: conn where
  "conn_80 = \<lparr>ip = ''1.2.3.4'', port = 80\<rparr>"

text \<open>
  A process whose name is in the list \<^verbatim>\<open>Remote address unlog\<close> of the template, an event
  without a connection, a configuration whose list holds the string \<^verbatim>\<open>"80"\<close>, and the
  ledger after the first scenario (\<open>snitch_curl_reached\<close> below).
\<close>

definition proc_firefox :: proc where
  "proc_firefox = \<lparr>name = ''firefox'', exe = ''/usr/bin/firefox'', cmdline = Cmd_str ''firefox'', pid = 101\<rparr>"


definition snitch_unlog80 :: snitch where
  "snitch_unlog80 = snitch0\<lparr>Config := config0\<lparr>Remote_address_unlog := [PyStr ''80'']\<rparr>\<rparr>"

definition record_curl :: process_record where
  "record_curl =
        \<lparr>rec_name = ''curl'', cmdlines = [''curl http://1.2.3.4/''],
         first_seen = ''Mon Jan  1 23:59:59 2024'', last_seen = ''Mon Jan  1 23:59:59 2024'',
         days_seen = 1, ports = [80], remote_addresses = [''1.2.3.4''],
         results = [''00'' \<mapsto> ''File not analyzed (no api key)'']\<rparr>"

definition snitch_curl :: snitch where
  "snitch_curl =
     \<lparr>Config = config0, Errors = [],
      Latest_Entries = [''Mon Jan  1 23:59:59 2024 curl - curl''],
      Names = [''curl'' \<mapsto> [''curl'']],
      Processes = [''curl'' \<mapsto>
        \<lparr>rec_name = ''curl'', cmdlines = [''curl http://1.2.3.4/''],
         first_seen = ''Mon Jan  1 23:59:59 2024'', last_seen = ''Mon Jan  1 23:59:59 2024'',
         days_seen = 1, ports = [80], remote_addresses = [''1.2.3.4''],
         results = [''00'' \<mapsto> ''File not analyzed (no api key)'']\<rparr>],
      Remote_Addresses = [''1.2.3.4'' \<mapsto> [''First connection: Mon Jan  1 23:59:59 2024'', ''curl'']]\<rparr>"

text \<open>
  The same ledger with a VirusTotal key and the upload on: in \<open>env0\<close> the lookup fails
  and the executable cannot be opened, so \<^verbatim>\<open>get_vt_results\<close> raises for a hash that is not
  yet in \<^verbatim>\<open>results\<close>.
\<close>

definition snitch_curl_vt :: snitch where
  "snitch_curl_vt =
     snitch_curl\<lparr>Config := config0\<lparr>VT_API_key := ''key'', VT_file_upload := True\<rparr>\<rparr>"


definition env_difflib :: env where
  "env_difflib =
     env0\<lparr>difflib_get_close_matches := (\<lambda>a l n cutoff. take n l),
          difflib_get_matching_blocks := (\<lambda>a b. [(0, 0, 9), (10, 10, 0)])\<rparr>"

definition proc_app :: proc where
  "proc_app = \<lparr>name = ''app'', exe = ''app'', cmdline = Cmd_str ''app --id=2'', pid = 103\<rparr>"

definition record_app :: process_record where
  "record_app =
     \<lparr>rec_name = ''app'', cmdlines = [''app --id=1''],
      first_seen = ''Mon Jan  1 23:59:59 2024'', last_seen = ''Mon Jan  1 23:59:59 2024'',
      days_seen = 1, ports = [80], remote_addresses = [''1.2.3.4''],
      results = [''00'' \<mapsto> ''File not analyzed (no api key)'']\<rparr>"

definition snitch_app :: snitch where
  "snitch_app =
     \<lparr>Config = config0, Errors = [],
      Latest_Entries = [''Mon Jan  1 23:59:59 2024 app - app''],
      Names = [''app'' \<mapsto> [''app'']],
      Processes = [''app'' \<mapsto> record_app],
      Remote_Addresses = [''1.2.3.4'' \<mapsto> [''First connection: Mon Jan  1 23:59:59 2024'', ''app'']]\<rparr>"

text \<open>
  An environment in which psutil still finds every process, and a Supervisor whose
  Producer is dead at the health check, when line 443 computes a difference of 300 (as
  it does for the clock readings 0.0 and 300.0, and for 0.1 and 300.1) and of 301.
\<close>

definition env_live :: env where
  "env_live = env0\<lparr>psutil_Process_as_dict := (\<lambda>p. Inr (proc_curl\<lparr>pid := p\<rparr>))\<rparr>"

definition monitor0 :: monitor where
  "monitor0 = \<lparr>started = 1, terminated = [], time_last_start = 0, q_error = []\<rparr>"

definition ob_dead_300 :: observation where
  "ob_dead_300 =
     \<lparr>sub_is_alive = False, memory_vms = Inr 0, time_difference = 300, time_started = 300,
      q_term_get = None, parent_is_alive = True, sub_is_alive_after = False\<rparr>"

definition ob_dead_301 :: observation where
  "ob_dead_301 =
     \<lparr>sub_is_alive = False, memory_vms = Inr 0, time_difference = 301, time_started = 301,
      q_term_get = None, parent_is_alive = True, sub_is_alive_after = True\<rparr>"

section \<open>Names and Processes\<close>



section \<open>What each stage of update_snitch leaves alone\<close>

lemma get_vt_results_unlog:
  "Remote_address_unlog (snd (get_vt_results env h p cfg)) = Remote_address_unlog cfg"
  by (simp add: get_vt_results_def Let_def split: sum.splits)

lemma update_latest_entries_frame:
  "Names (update_latest_entries s p t) = Names s"
  "Processes (update_latest_entries s p t) = Processes s"
  "Remote_Addresses (update_latest_entries s p t) = Remote_Addresses s"
  "Config (update_latest_entries s p t) = Config s"
  "Errors (update_latest_entries s p t) = Errors s"
  by (simp_all add: update_latest_entries_def)

lemma update_names_frame:
  "Latest_Entries (update_names s p c) = Latest_Entries s"
  "Processes (update_names s p c) = Processes s"
  "Remote_Addresses (update_names s p c) = Remote_Addresses s"
  "Config (update_names s p c) = Config s"
  "Errors (update_names s p c) = Errors s"
  by (simp_all add: update_names_def split: option.splits)

lemma update_processes_frame:
  "Latest_Entries (snd (update_processes env s p c h t r)) = Latest_Entries s"
  "Names (snd (update_processes env s p c h t r)) = Names s"
  "Remote_Addresses (snd (update_processes env s p c h t r)) = Remote_Addresses s"
  "Errors (snd (update_processes env s p c h t r)) = Errors s"
  by (simp_all add: update_processes_def split: option.splits prod.splits sum.splits)

lemma update_remote_addresses_frame:
  "Latest_Entries (update_remote_addresses s p c t r) = Latest_Entries s"
  "Names (update_remote_addresses s p c t r) = Names s"
  "Processes (update_remote_addresses s p c t r) = Processes s"
  "Config (update_remote_addresses s p c t r) = Config s"
  "Errors (update_remote_addresses s p c t r) = Errors s"
  by (simp_all add: update_remote_addresses_def Let_def split: option.splits)

text \<open>The ledger after \<^verbatim>\<open>update_snitch\<close>, and its exception, stage by stage.\<close>

lemma update_snitch_snd:
  "snd (update_snitch env s p c h t) =
     (let r = reverse_domain_name env (reverse_dns_lookup env (ip c));
          s2 = update_names (update_latest_entries s p t) p c;
          res = update_processes env s2 p c h t r
      in if fst res = None then update_remote_addresses (snd res) p c t r else snd res)"
  by (simp add: update_snitch_def Let_def split: prod.splits option.splits)

lemma update_snitch_fst:
  "fst (update_snitch env s p c h t) =
     fst (update_processes env (update_names (update_latest_entries s p t) p c) p c h t
            (reverse_domain_name env (reverse_dns_lookup env (ip c))))"
  by (simp add: update_snitch_def Let_def split: prod.splits option.splits)

lemma update_snitch_Latest_Entries:
  "Latest_Entries (snd (update_snitch env s p c h t)) = Latest_Entries (update_latest_entries s p t)"
  by (simp add: update_snitch_snd Let_def update_remote_addresses_frame update_processes_frame
        update_names_frame)

section \<open>The fields of a record, stage by stage\<close>

lemma entry_name_fields:
  "cmdlines (entry_name e p) = cmdlines e"
  "first_seen (entry_name e p) = first_seen e"
  "last_seen (entry_name e p) = last_seen e"
  "days_seen (entry_name e p) = days_seen e"
  "ports (entry_name e p) = ports e"
  "remote_addresses (entry_name e p) = remote_addresses e"
  "results (entry_name e p) = results e"
  by (simp_all add: entry_name_def)

lemma entry_cmdlines_fields:
  assumes "entry_cmdlines env e p = Inr e2"
  shows "rec_name e2 = rec_name e" "first_seen e2 = first_seen e" "last_seen e2 = last_seen e"
    "days_seen e2 = days_seen e" "ports e2 = ports e" "remote_addresses e2 = remote_addresses e"
    "results e2 = results e"
  using assms by (auto simp: entry_cmdlines_def split: if_splits sum.splits)

lemma entry_ports_fields:
  "rec_name (entry_ports e c) = rec_name e"
  "cmdlines (entry_ports e c) = cmdlines e"
  "first_seen (entry_ports e c) = first_seen e"
  "last_seen (entry_ports e c) = last_seen e"
  "days_seen (entry_ports e c) = days_seen e"
  "remote_addresses (entry_ports e c) = remote_addresses e"
  "results (entry_ports e c) = results e"
  "ports (entry_ports e c) = (if port c \<in> set (ports e) then ports e else sort (ports e @ [port c]))"
  by (simp_all add: entry_ports_def)

lemma entry_remote_addresses_fields:
  "rec_name (entry_remote_addresses cfg e p c r) = rec_name e"
  "cmdlines (entry_remote_addresses cfg e p c r) = cmdlines e"
  "first_seen (entry_remote_addresses cfg e p c r) = first_seen e"
  "last_seen (entry_remote_addresses cfg e p c r) = last_seen e"
  "days_seen (entry_remote_addresses cfg e p c r) = days_seen e"
  "ports (entry_remote_addresses cfg e p c r) = ports e"
  "results (entry_remote_addresses cfg e p c r) = results e"
  "remote_addresses (entry_remote_addresses cfg e p c r) =
     (if r \<notin> set (remote_addresses e) \<and> not_unlogged cfg p c
      then remote_addresses e @ [r] else remote_addresses e)"
  by (simp_all add: entry_remote_addresses_def)

lemma entry_results_fields:
  assumes "entry_results env cfg e p h = (Inr e5, cfg1)"
  shows "rec_name e5 = rec_name e" "cmdlines e5 = cmdlines e" "first_seen e5 = first_seen e"
    "last_seen e5 = last_seen e" "days_seen e5 = days_seen e" "ports e5 = ports e"
    "remote_addresses e5 = remote_addresses e"
  using assms by (auto simp: entry_results_def split: if_splits sum.splits prod.splits)

lemma entry_results_unlog:
  "Remote_address_unlog (snd (entry_results env cfg e p h)) = Remote_address_unlog cfg"
  using get_vt_results_unlog [of env h p cfg]
  by (auto simp: entry_results_def split: if_splits sum.splits prod.splits)

lemma entry_seen_fields:
  "rec_name (entry_seen e t) = rec_name e"
  "cmdlines (entry_seen e t) = cmdlines e"
  "first_seen (entry_seen e t) = first_seen e"
  "ports (entry_seen e t) = ports e"
  "remote_addresses (entry_seen e t) = remote_addresses e"
  "results (entry_seen e t) = results e"
  "last_seen (entry_seen e t) = t"
  "days_seen (entry_seen e t) =
     (if take 3 (split_ws t) \<noteq> take 3 (split_ws (last_seen e)) then days_seen e + 1 else days_seen e)"
  by (simp_all add: entry_seen_def Let_def)

text \<open>A call that updates a known record without an exception went through all the stages.\<close>

lemma update_process_record_None:
  assumes "update_process_record env cfg e p c h t r = (None, e', cfg')"
  obtains e2 e5 where
    "entry_cmdlines env (entry_name e p) p = Inr e2"
    "entry_results env cfg (entry_remote_addresses cfg (entry_ports e2 c) p c r) p h = (Inr e5, cfg')"
    "e' = entry_seen e5 t"
  using assms
  by (auto simp: update_process_record_def Let_def split: sum.splits prod.splits)

lemma update_process_record_None_fields:
  assumes "update_process_record env cfg e p c h t r = (None, e', cfg')"
  shows "rec_name e' = rec_name (entry_name e p)"
    and "ports e' = (if port c \<in> set (ports e) then ports e else sort (ports e @ [port c]))"
    and "remote_addresses e' =
           (if r \<notin> set (remote_addresses e) \<and> not_unlogged cfg p c
            then remote_addresses e @ [r] else remote_addresses e)"
    and "days_seen e' =
           (if take 3 (split_ws t) \<noteq> take 3 (split_ws (last_seen e)) then days_seen e + 1 else days_seen e)"
    and "last_seen e' = t"
    and "first_seen e' = first_seen e"
proof -
  from assms obtain e2 e5 where
    a: "entry_cmdlines env (entry_name e p) p = Inr e2" and
    b: "entry_results env cfg (entry_remote_addresses cfg (entry_ports e2 c) p c r) p h = (Inr e5, cfg')" and
    c: "e' = entry_seen e5 t"
    by (rule update_process_record_None)
  note f = entry_seen_fields entry_results_fields [OF b] entry_remote_addresses_fields
    entry_ports_fields entry_cmdlines_fields [OF a] entry_name_fields
  show "rec_name e' = rec_name (entry_name e p)" by (simp add: c f)
  show "ports e' = (if port c \<in> set (ports e) then ports e else sort (ports e @ [port c]))"
    by (simp add: c f)
  show "remote_addresses e' =
           (if r \<notin> set (remote_addresses e) \<and> not_unlogged cfg p c
            then remote_addresses e @ [r] else remote_addresses e)"
    by (simp add: c f)
  show "days_seen e' =
           (if take 3 (split_ws t) \<noteq> take 3 (split_ws (last_seen e)) then days_seen e + 1 else days_seen e)"
    by (simp add: c f)
  show "last_seen e' = t" by (simp add: c f)
  show "first_seen e' = first_seen e" by (simp add: c f)
qed

lemma new_process_record_Inr:
  assumes "new_process_record env cfg p c h t r = (Inr e', cfg')"
  shows "rec_name e' = name p" and "cmdlines e' = [str_cmdline env (cmdline p)]"
    and "first_seen e' = t" and "last_seen e' = t" and "days_seen e' = 1"
    and "ports e' = [port c]"
    and "remote_addresses e' = (if not_unlogged cfg p c then [r] else [])"
proof -
  obtain x cfg1 where g: "get_vt_results env h p cfg = (x, cfg1)"
    by (cases "get_vt_results env h p cfg")
  have u: "not_unlogged cfg1 p c = not_unlogged cfg p c"
    using get_vt_results_unlog [of env h p cfg] g by (simp add: not_unlogged_def)
  from assms g obtain res where x: "x = Inr res"
    by (cases x) (simp_all add: new_process_record_def)
  from assms g x have e:
    "e' = (if not_unlogged cfg p c
           then \<lparr>rec_name = name p, cmdlines = [str_cmdline env (cmdline p)], first_seen = t,
                 last_seen = t, days_seen = 1, ports = [port c], remote_addresses = [r],
                 results = [h \<mapsto> res]\<rparr>
           else \<lparr>rec_name = name p, cmdlines = [str_cmdline env (cmdline p)], first_seen = t,
                 last_seen = t, days_seen = 1, ports = [port c], remote_addresses = [],
                 results = [h \<mapsto> res]\<rparr>)"
    by (auto simp: new_process_record_def Let_def u)
  show "rec_name e' = name p" by (simp add: e)
  show "cmdlines e' = [str_cmdline env (cmdline p)]" by (simp add: e)
  show "first_seen e' = t" by (simp add: e)
  show "last_seen e' = t" by (simp add: e)
  show "days_seen e' = 1" by (simp add: e)
  show "ports e' = [port c]" by (simp add: e)
  show "remote_addresses e' = (if not_unlogged cfg p c then [r] else [])" by (simp add: e)
qed

lemma new_process_record_unlog:
  "Remote_address_unlog (snd (new_process_record env cfg p c h t r)) = Remote_address_unlog cfg"
proof -
  obtain x cfg1 where g: "get_vt_results env h p cfg = (x, cfg1)"
    by (cases "get_vt_results env h p cfg")
  have "Remote_address_unlog cfg1 = Remote_address_unlog cfg"
    using get_vt_results_unlog [of env h p cfg] g by simp
  with g show ?thesis
    by (cases x) (simp_all add: new_process_record_def Let_def)
qed


lemma update_process_record_unlog:
  "Remote_address_unlog (snd (snd (update_process_record env cfg e p c h t r))) = Remote_address_unlog cfg"
proof (cases "entry_cmdlines env (entry_name e p) p")
  case (Inl x)
  then show ?thesis by (simp add: update_process_record_def)
next
  case (Inr e2)
  obtain x cfg1 where
    er: "entry_results env cfg (entry_remote_addresses cfg (entry_ports e2 c) p c r) p h = (x, cfg1)"
    by (cases "entry_results env cfg (entry_remote_addresses cfg (entry_ports e2 c) p c r) p h")
  have "Remote_address_unlog cfg1 = Remote_address_unlog cfg"
    using entry_results_unlog [of env cfg "entry_remote_addresses cfg (entry_ports e2 c) p c r" p h] er
    by simp
  with Inr er show ?thesis
    by (cases x) (simp_all add: update_process_record_def Let_def)
qed

lemma update_processes_unlog:
  "Remote_address_unlog (Config (snd (update_processes env s p c h t r))) = Remote_address_unlog (Config s)"
proof (cases "Processes s (exe p)")
  case None
  obtain x cfg1 where n: "new_process_record env (Config s) p c h t r = (x, cfg1)"
    by (cases "new_process_record env (Config s) p c h t r")
  have "Remote_address_unlog cfg1 = Remote_address_unlog (Config s)"
    using new_process_record_unlog [of env "Config s" p c h t r] n by simp
  with None n show ?thesis
    by (cases x) (simp_all add: update_processes_def)
next
  case (Some e)
  obtain x e1 cfg1 where n: "update_process_record env (Config s) e p c h t r = (x, e1, cfg1)"
    by (cases "update_process_record env (Config s) e p c h t r")
  have "Remote_address_unlog cfg1 = Remote_address_unlog (Config s)"
    using update_process_record_unlog [of env "Config s" e p c h t r] n by simp
  with Some n show ?thesis
    by (simp add: update_processes_def)
qed

text \<open>An update of Processes without an exception stores a record at the executable.\<close>

lemma update_processes_None_new:
  assumes "update_processes env s p c h t r = (None, s')" and "Processes s (exe p) = None"
  obtains e' cfg' where "new_process_record env (Config s) p c h t r = (Inr e', cfg')"
    and "Processes s' = (Processes s)(exe p \<mapsto> e')"
  using assms by (auto simp: update_processes_def split: prod.splits sum.splits)

lemma update_processes_None_known:
  assumes "update_processes env s p c h t r = (None, s')" and "Processes s (exe p) = Some e"
  obtains e' cfg' where "update_process_record env (Config s) e p c h t r = (None, e', cfg')"
    and "Processes s' = (Processes s)(exe p \<mapsto> e')"
  using assms by (auto simp: update_processes_def split: prod.splits)

lemma update_snitch_None:
  assumes "fst (update_snitch env s p c h t) = None"
  obtains s3 where
    "update_processes env (update_names (update_latest_entries s p t) p c) p c h t
       (reverse_domain_name env (reverse_dns_lookup env (ip c))) = (None, s3)"
    and "snd (update_snitch env s p c h t) =
           update_remote_addresses s3 p c t (reverse_domain_name env (reverse_dns_lookup env (ip c)))"
  using assms by (auto simp: update_snitch_def Let_def split: prod.splits option.splits)

lemma dom_update_remote_addresses:
  "dom (Remote_Addresses (update_remote_addresses s p c t r)) =
     (if not_unlogged (Config s) p c then insert r (dom (Remote_Addresses s))
      else dom (Remote_Addresses s))"
  by (auto simp: update_remote_addresses_def Let_def split: option.splits if_splits)



lemma Remote_Addresses_update_remote_addresses:
  "Remote_Addresses (update_remote_addresses s p c t r) =
     (case Remote_Addresses s r of
        Some l \<Rightarrow>
          (if exe p \<notin> set l then
             (Remote_Addresses s)(r \<mapsto>
                (if ''No processes found during polling'' \<in> set (list_insert 1 (exe p) l)
                 then remove1 ''No processes found during polling'' (list_insert 1 (exe p) l)
                 else list_insert 1 (exe p) l))
           else Remote_Addresses s)
      | None \<Rightarrow>
          (if not_unlogged (Config s) p c
           then (Remote_Addresses s)(r \<mapsto> [''First connection: '' @ t, exe p])
           else Remote_Addresses s))"
  by (simp add: update_remote_addresses_def Let_def split: option.splits)

text \<open>After a call without an exception, Remote Addresses is what the last stage makes of the old one.\<close>

lemma update_snitch_None_Remote_Addresses:
  assumes "fst (update_snitch env s p c h t) = None"
  shows "Remote_Addresses (snd (update_snitch env s p c h t)) =
           Remote_Addresses (update_remote_addresses s p c t
             (reverse_domain_name env (reverse_dns_lookup env (ip c))))"
proof -
  from assms obtain s3 where
    u: "update_processes env (update_names (update_latest_entries s p t) p c) p c h t
          (reverse_domain_name env (reverse_dns_lookup env (ip c))) = (None, s3)" and
    r: "snd (update_snitch env s p c h t) =
          update_remote_addresses s3 p c t (reverse_domain_name env (reverse_dns_lookup env (ip c)))"
    by (rule update_snitch_None)
  have ra: "Remote_Addresses s3 = Remote_Addresses s"
    using update_processes_frame(3) [of env "update_names (update_latest_entries s p t) p c" p c h t
        "reverse_domain_name env (reverse_dns_lookup env (ip c))"] u
    by (simp add: update_names_frame update_latest_entries_frame)
  have "Remote_address_unlog (Config s3) = Remote_address_unlog (Config s)"
    using update_processes_unlog [of env "update_names (update_latest_entries s p t) p c" p c h t
        "reverse_domain_name env (reverse_dns_lookup env (ip c))"] u
    by (simp add: update_names_frame update_latest_entries_frame)
  then have nu: "not_unlogged (Config s3) p c = not_unlogged (Config s) p c"
    by (simp add: not_unlogged_def)
  show ?thesis
    by (simp add: r Remote_Addresses_update_remote_addresses ra nu split: option.splits)
qed

lemma update_snitch_None_new:
  assumes "fst (update_snitch env s p c h t) = None" and "Processes s (exe p) = None"
  obtains e' cfg' where
    "new_process_record env (Config s) p c h t
       (reverse_domain_name env (reverse_dns_lookup env (ip c))) = (Inr e', cfg')"
    and "Processes (snd (update_snitch env s p c h t)) = (Processes s)(exe p \<mapsto> e')"
proof -
  from assms(1) obtain s3 where
    u: "update_processes env (update_names (update_latest_entries s p t) p c) p c h t
          (reverse_domain_name env (reverse_dns_lookup env (ip c))) = (None, s3)" and
    r: "snd (update_snitch env s p c h t) =
          update_remote_addresses s3 p c t (reverse_domain_name env (reverse_dns_lookup env (ip c)))"
    by (rule update_snitch_None)
  have n: "Processes (update_names (update_latest_entries s p t) p c) (exe p) = None"
    using assms(2) by (simp add: update_names_frame update_latest_entries_frame)
  from update_processes_None_new [OF u n] obtain e' cfg' where
    "new_process_record env (Config (update_names (update_latest_entries s p t) p c)) p c h t
       (reverse_domain_name env (reverse_dns_lookup env (ip c))) = (Inr e', cfg')"
    "Processes s3 = (Processes (update_names (update_latest_entries s p t) p c))(exe p \<mapsto> e')"
    by blast
  then show thesis
    using that by (simp add: r update_remote_addresses_frame update_names_frame update_latest_entries_frame)
qed

lemma update_snitch_None_known:
  assumes "fst (update_snitch env s p c h t) = None" and "Processes s (exe p) = Some e"
  obtains e' cfg' where
    "update_process_record env (Config s) e p c h t
       (reverse_domain_name env (reverse_dns_lookup env (ip c))) = (None, e', cfg')"
    and "Processes (snd (update_snitch env s p c h t)) = (Processes s)(exe p \<mapsto> e')"
proof -
  from assms(1) obtain s3 where
    u: "update_processes env (update_names (update_latest_entries s p t) p c) p c h t
          (reverse_domain_name env (reverse_dns_lookup env (ip c))) = (None, s3)" and
    r: "snd (update_snitch env s p c h t) =
          update_remote_addresses s3 p c t (reverse_domain_name env (reverse_dns_lookup env (ip c)))"
    by (rule update_snitch_None)
  have n: "Processes (update_names (update_latest_entries s p t) p c) (exe p) = Some e"
    using assms(2) by (simp add: update_names_frame update_latest_entries_frame)
  from update_processes_None_known [OF u n] obtain e' cfg' where
    "update_process_record env (Config (update_names (update_latest_entries s p t) p c)) e p c h t
       (reverse_domain_name env (reverse_dns_lookup env (ip c))) = (None, e', cfg')"
    "Processes s3 = (Processes (update_names (update_latest_entries s p t) p c))(exe p \<mapsto> e')"
    by blast
  then show thesis
    using that by (simp add: r update_remote_addresses_frame update_names_frame update_latest_entries_frame)
qed

text \<open>Whatever the outcome, the record of a known executable keeps its day count or gains a day, and its name is only extended.\<close>

lemma entry_name_prefix: "prefix (rec_name e) (rec_name (entry_name e p))"
  by (simp add: entry_name_def)

lemma update_process_record_any:
  "days_seen e \<le> days_seen (fst (snd (update_process_record env cfg e p c h t r))) \<and>
   prefix (rec_name e) (rec_name (fst (snd (update_process_record env cfg e p c h t r))))"
proof (cases "entry_cmdlines env (entry_name e p) p")
  case (Inl x)
  then show ?thesis
    by (simp add: update_process_record_def entry_name_fields entry_name_prefix)
next
  case (Inr e2)
  note f2 = entry_cmdlines_fields [OF Inr]
  obtain x cfg1 where
    er: "entry_results env cfg (entry_remote_addresses cfg (entry_ports e2 c) p c r) p h = (x, cfg1)"
    by (cases "entry_results env cfg (entry_remote_addresses cfg (entry_ports e2 c) p c r) p h")
  show ?thesis
  proof (cases x)
    case (Inl ex)
    with Inr er show ?thesis
      by (simp add: update_process_record_def Let_def entry_remote_addresses_fields
            entry_ports_fields f2 entry_name_fields entry_name_prefix)
  next
    case (Inr e5)
    note f5 = entry_results_fields [OF er [unfolded Inr]]
    from \<open>entry_cmdlines env (entry_name e p) p = Inr e2\<close> er Inr show ?thesis
      by (simp add: update_process_record_def Let_def entry_seen_fields f5
            entry_remote_addresses_fields entry_ports_fields f2 entry_name_fields entry_name_prefix)
  qed
qed

lemma update_processes_any:
  assumes "Processes s x = Some e"
  shows "\<exists>e'. Processes (snd (update_processes env s p c h t r)) x = Some e' \<and>
              days_seen e \<le> days_seen e' \<and> prefix (rec_name e) (rec_name e')"
proof (cases "x = exe p")
  case True
  obtain y e1 cfg1 where n: "update_process_record env (Config s) e p c h t r = (y, e1, cfg1)"
    by (cases "update_process_record env (Config s) e p c h t r")
  from update_process_record_any [of e env "Config s" p c h t r] n
  have "days_seen e \<le> days_seen e1 \<and> prefix (rec_name e) (rec_name e1)" by simp
  with assms True n show ?thesis
    by (simp add: update_processes_def)
next
  case False
  show ?thesis
  proof (cases "Processes s (exe p)")
    case None
    obtain y cfg1 where n: "new_process_record env (Config s) p c h t r = (y, cfg1)"
      by (cases "new_process_record env (Config s) p c h t r")
    from assms False None n show ?thesis
      by (cases y) (simp_all add: update_processes_def)
  next
    case (Some e0)
    obtain y e1 cfg1 where n: "update_process_record env (Config s) e0 p c h t r = (y, e1, cfg1)"
      by (cases "update_process_record env (Config s) e0 p c h t r")
    from assms False Some n show ?thesis
      by (simp add: update_processes_def)
  qed
qed

lemma update_snitch_Processes:
  "Processes (snd (update_snitch env s p c h t)) =
     Processes (snd (update_processes env (update_names (update_latest_entries s p t) p c) p c h t
                       (reverse_domain_name env (reverse_dns_lookup env (ip c)))))"
  by (simp add: update_snitch_snd Let_def update_remote_addresses_frame)

lemma update_snitch_any:
  assumes "Processes s x = Some e"
  shows "\<exists>e'. Processes (snd (update_snitch env s p c h t)) x = Some e' \<and>
              days_seen e \<le> days_seen e' \<and> prefix (rec_name e) (rec_name e')"
proof -
  have "Processes (update_names (update_latest_entries s p t) p c) x = Some e"
    using assms by (simp add: update_names_frame update_latest_entries_frame)
  from update_processes_any [OF this] show ?thesis
    by (simp only: update_snitch_Processes)
qed

section \<open>Names only grow, names of records are only extended\<close>





section \<open>The list of command lines\<close>





lemma index_of_Some: "x \<in> set l \<Longrightarrow> \<exists>i. index_of x l = Some i"
  by (induction l) auto


text \<open>When difflib returns strings of the list, as it does, nothing is raised.\<close>

lemma get_common_pattern_returns:
  assumes "set (difflib_get_close_matches env a l 1 cutoff) \<subseteq> set l"
  shows "\<exists>l'. get_common_pattern env a l cutoff = Inr l'"
proof (cases "difflib_get_close_matches env a l 1 cutoff")
  case Nil
  then show ?thesis by (simp add: get_common_pattern_def)
next
  case (Cons b0 bs)
  with assms have "b0 \<in> set l" by simp
  from index_of_Some [OF this] obtain i where "index_of b0 l = Some i" by blast
  with Cons show ?thesis by (simp add: get_common_pattern_def Let_def)
qed

section \<open>When update_snitch returns\<close>

lemma get_vt_results_no_key:
  "VT_API_key cfg = [] \<Longrightarrow> get_vt_results env h p cfg = (Inr ''File not analyzed (no api key)'', cfg)"
  by (simp add: get_vt_results_def)

lemma entry_cmdlines_returns:
  assumes "set (difflib_get_close_matches env (str_cmdline env (cmdline p)) (cmdlines e) 1 (8 / 10))
             \<subseteq> set (cmdlines e)"
  shows "\<exists>e2. entry_cmdlines env e p = Inr e2"
proof (cases "str_cmdline env (cmdline p) \<in> set (cmdlines e)")
  case True
  then show ?thesis by (simp add: entry_cmdlines_def)
next
  case False
  from get_common_pattern_returns [OF assms] obtain l where
    "get_common_pattern env (str_cmdline env (cmdline p)) (cmdlines e) (8 / 10) = Inr l" by blast
  with False show ?thesis by (simp add: entry_cmdlines_def)
qed

lemma update_process_record_returns:
  assumes "VT_API_key cfg = []"
    and "set (difflib_get_close_matches env (str_cmdline env (cmdline p)) (cmdlines e) 1 (8 / 10))
           \<subseteq> set (cmdlines e)"
  shows "fst (update_process_record env cfg e p c h t r) = None"
proof -
  from assms(2) have "set (difflib_get_close_matches env (str_cmdline env (cmdline p))
      (cmdlines (entry_name e p)) 1 (8 / 10)) \<subseteq> set (cmdlines (entry_name e p))"
    by (simp add: entry_name_fields)
  from entry_cmdlines_returns [OF this] obtain e2 where
    a: "entry_cmdlines env (entry_name e p) p = Inr e2" by blast
  have "\<exists>e5. entry_results env cfg (entry_remote_addresses cfg (entry_ports e2 c) p c r) p h = (Inr e5, cfg)"
    by (simp add: entry_results_def get_vt_results_no_key [OF assms(1)])
  then obtain e5 where
    b: "entry_results env cfg (entry_remote_addresses cfg (entry_ports e2 c) p c r) p h = (Inr e5, cfg)"
    by blast
  show ?thesis by (simp add: update_process_record_def Let_def a b)
qed

section \<open>The table of pids in initial_poll\<close>

text \<open>The loop over the running processes writes the table of pids at the key \<^verbatim>\<open>"pid"\<close> only.\<close>

lemma poll_processes_known_pids:
  "k \<noteq> PyStr ''pid'' \<Longrightarrow> snd (poll_processes env running current known_pids) k = known_pids k"
  by (induction running arbitrary: current known_pids) simp_all

section \<open>Evaluating the examples\<close>

lemmas update_snitch_defs =
  update_snitch_def update_latest_entries_def update_names_def update_processes_def
  new_process_record_def update_process_record_def entry_name_def entry_cmdlines_def
  entry_ports_def entry_remote_addresses_def entry_results_def entry_seen_def
  update_remote_addresses_def not_unlogged_def get_vt_results_def str_cmdline_def
  reverse_domain_name_def reverse_dns_lookup_def list_insert_def Let_def sublist_code

lemmas example_defs =
  env0_def snitch0_def config0_def proc_curl_def conn_80_def snitch_curl_def proc_firefox_def
  snitch_unlog80_def record_curl_def snitch_curl_vt_def

lemma day_tokens:
  "take 3 (split_ws ''Mon Jan  1 23:59:59 2024'') = [''Mon'', ''Jan'', ''1'']"
  "take 3 (split_ws ''Tue Jan  2 00:00:01 2024'') = [''Tue'', ''Jan'', ''2'']"
  by (simp_all add: split_ws_def is_space_def)

lemma snitch_curl_reached:
  "snd (update_snitch env0 snitch0 proc_curl conn_80 ''00'' ''Mon Jan  1 23:59:59 2024'') = snitch_curl"
  by (simp add: update_snitch_defs env0_def snitch0_def config0_def proc_curl_def conn_80_def snitch_curl_def)

section \<open>Latest Entries\<close>

text \<open>
  Claim C6. A call of \<^verbatim>\<open>update_snitch\<close> appends exactly one line to Latest Entries, the
  line \<^verbatim>\<open>ctime name - exe\<close>, when at the entry of the call the executable is not a key
  of Processes or the name is not a key of Names; in every other call Latest Entries is
  unchanged. This holds also for a call that ends with an exception.
\<close>

theorem latest_entries_trigger:
  "Latest_Entries (snd (update_snitch env s p c sha256 ctime)) =
     (if Processes s (exe p) = None \<or> Names s (name p) = None
      then Latest_Entries s @ [ctime @ '' '' @ name p @ '' - '' @ exe p]
      else Latest_Entries s)"
  by (simp add: update_snitch_Latest_Entries update_latest_entries_def)

theorem latest_entries_trigger_witness:
  "Latest_Entries (snd (update_snitch env0 snitch0 proc_curl conn_80 ''00'' ''Mon Jan  1 23:59:59 2024''))
     = [''Mon Jan  1 23:59:59 2024 curl - curl'']"
  using latest_entries_trigger [of env0 snitch0 proc_curl conn_80 "''00''" "''Mon Jan  1 23:59:59 2024''"]
  by (simp add: snitch0_def proc_curl_def)

section \<open>The unlog filter\<close>

text \<open>
  Claim C2, as the code has it. The test of the source compares the port, an integer, and
  the name, a string, with the entries of \<^verbatim>\<open>Config["Remote address unlog"]\<close>. For every
  call of \<^verbatim>\<open>update_snitch\<close> that returns without an exception: when the port itself or
  the name is an entry of the list, the list \<^verbatim>\<open>remote addresses\<close> of the executable is
  what it was (empty for a new record) and Remote Addresses has the keys it had; when
  neither is, the reversed DNS name is in \<^verbatim>\<open>remote addresses\<close> (appended if it was not
  there) and is a key of Remote Addresses.
\<close>

theorem unlog_filter:
  assumes "fst (update_snitch env s p c sha256 ctime) = None"
  shows "let s' = snd (update_snitch env s p c sha256 ctime);
             reversed_dns = reverse_domain_name env (reverse_dns_lookup env (ip c));
             unlog = Remote_address_unlog (Config s);
             filtered = (PyInt (port c) \<in> set unlog \<or> PyStr (name p) \<in> set unlog);
             before = (case Processes s (exe p) of None \<Rightarrow> [] | Some e \<Rightarrow> remote_addresses e)
         in map_option remote_addresses (Processes s' (exe p)) =
              Some (if filtered \<or> reversed_dns \<in> set before then before else before @ [reversed_dns]) \<and>
            dom (Remote_Addresses s') =
              (if filtered then dom (Remote_Addresses s) else insert reversed_dns (dom (Remote_Addresses s)))"
proof -
  define r where "r = reverse_domain_name env (reverse_dns_lookup env (ip c))"
  have nu: "not_unlogged (Config s) p c =
              (\<not> (PyInt (port c) \<in> set (Remote_address_unlog (Config s)) \<or>
                  PyStr (name p) \<in> set (Remote_address_unlog (Config s))))"
    by (simp add: not_unlogged_def)
  have d: "dom (Remote_Addresses (snd (update_snitch env s p c sha256 ctime))) =
             (if not_unlogged (Config s) p c then insert r (dom (Remote_Addresses s))
              else dom (Remote_Addresses s))"
    unfolding r_def
    by (simp only: update_snitch_None_Remote_Addresses [OF assms] dom_update_remote_addresses)
  have pr: "map_option remote_addresses (Processes (snd (update_snitch env s p c sha256 ctime)) (exe p)) =
              Some (case Processes s (exe p) of
                      None \<Rightarrow> (if not_unlogged (Config s) p c then [r] else [])
                    | Some e \<Rightarrow>
                        (if r \<notin> set (remote_addresses e) \<and> not_unlogged (Config s) p c
                         then remote_addresses e @ [r] else remote_addresses e))"
  proof (cases "Processes s (exe p)")
    case None
    from update_snitch_None_new [OF assms None] obtain e' cfg' where
      n: "new_process_record env (Config s) p c sha256 ctime r = (Inr e', cfg')" and
      p: "Processes (snd (update_snitch env s p c sha256 ctime)) = (Processes s)(exe p \<mapsto> e')"
      unfolding r_def by blast
    show ?thesis by (simp add: None p new_process_record_Inr(7) [OF n])
  next
    case (Some e)
    from update_snitch_None_known [OF assms Some] obtain e' cfg' where
      n: "update_process_record env (Config s) e p c sha256 ctime r = (None, e', cfg')" and
      p: "Processes (snd (update_snitch env s p c sha256 ctime)) = (Processes s)(exe p \<mapsto> e')"
      unfolding r_def by blast
    show ?thesis by (simp add: Some p update_process_record_None_fields(3) [OF n])
  qed
  show ?thesis
    unfolding Let_def r_def [symmetric]
    by (simp add: d pr nu split: option.splits)
qed

theorem unlog_filter_witness:
  "fst (update_snitch env0 snitch0 proc_firefox conn_80 ''00'' ''Mon Jan  1 23:59:59 2024'') = None \<and>
   PyStr (name proc_firefox) \<in> set (Remote_address_unlog (Config snitch0)) \<and>
   map_option remote_addresses
     (Processes (snd (update_snitch env0 snitch0 proc_firefox conn_80 ''00'' ''Mon Jan  1 23:59:59 2024''))
        ''/usr/bin/firefox'') = Some [] \<and>
   dom (Remote_Addresses
     (snd (update_snitch env0 snitch0 proc_firefox conn_80 ''00'' ''Mon Jan  1 23:59:59 2024''))) = {}"
proof -
  have h: "fst (update_snitch env0 snitch0 proc_firefox conn_80 ''00'' ''Mon Jan  1 23:59:59 2024'') = None"
    by (simp add: update_snitch_defs example_defs)
  from unlog_filter [OF h] h show ?thesis
    by (simp add: Let_def snitch0_def config0_def proc_firefox_def)
qed

text \<open>
  Claim C2 as stated fails: with \<^verbatim>\<open>unlog = ["80"]\<close> and a connection to port 80 the
  remote address is recorded in the new record, and its key is created in Remote Addresses.
  The string \<^verbatim>\<open>"80"\<close> is not equal to the integer 80.
\<close>

theorem unlog_port_string_counterexample:
  "Remote_address_unlog (Config snitch_unlog80) = [PyStr ''80''] \<and>
   port conn_80 = 80 \<and>
   fst (update_snitch env0 snitch_unlog80 proc_curl conn_80 ''00'' ''Mon Jan  1 23:59:59 2024'') = None \<and>
   map_option remote_addresses
     (Processes (snd (update_snitch env0 snitch_unlog80 proc_curl conn_80 ''00'' ''Mon Jan  1 23:59:59 2024''))
        ''curl'') = Some [''1.2.3.4''] \<and>
   Remote_Addresses snitch_unlog80 ''1.2.3.4'' = None \<and>
   Remote_Addresses
     (snd (update_snitch env0 snitch_unlog80 proc_curl conn_80 ''00'' ''Mon Jan  1 23:59:59 2024''))
     ''1.2.3.4'' = Some [''First connection: Mon Jan  1 23:59:59 2024'', ''curl'']"
  by (simp add: update_snitch_defs example_defs)

section \<open>The day counter\<close>

text \<open>
  Claim C7, as the code has it. Under every call of \<^verbatim>\<open>update_snitch\<close>, also one that raises and one for
  another executable, a record of Processes stays in Processes and its \<^verbatim>\<open>days seen\<close> does
  not decrease. A call for the executable of the record that returns without an exception
  stores its timestamp as \<^verbatim>\<open>last seen\<close> and adds exactly 1 to \<^verbatim>\<open>days seen\<close> when the
  first three whitespace-separated tokens of its timestamp differ from those of the stored
  \<^verbatim>\<open>last seen\<close>, and leaves \<^verbatim>\<open>days seen\<close> as it was when they are the same.
\<close>

theorem days_seen_counter:
  assumes "Processes s x = Some e"
  shows "\<exists>e'. Processes (snd (update_snitch env s p c sha256 ctime)) x = Some e' \<and>
              days_seen e \<le> days_seen e' \<and>
              (x = exe p \<and> fst (update_snitch env s p c sha256 ctime) = None \<longrightarrow>
                 last_seen e' = ctime \<and>
                 days_seen e' =
                   (if take 3 (split_ws ctime) \<noteq> take 3 (split_ws (last_seen e))
                    then days_seen e + 1 else days_seen e))"
proof -
  from update_snitch_any [OF assms] obtain e' where
    p: "Processes (snd (update_snitch env s p c sha256 ctime)) x = Some e'" and
    d: "days_seen e \<le> days_seen e'"
    by blast
  have k: "x = exe p \<and> fst (update_snitch env s p c sha256 ctime) = None \<longrightarrow>
             last_seen e' = ctime \<and>
             days_seen e' =
               (if take 3 (split_ws ctime) \<noteq> take 3 (split_ws (last_seen e))
                then days_seen e + 1 else days_seen e)"
  proof
    assume a: "x = exe p \<and> fst (update_snitch env s p c sha256 ctime) = None"
    then have x: "x = exe p" and n: "fst (update_snitch env s p c sha256 ctime) = None"
      by simp_all
    from assms x have k: "Processes s (exe p) = Some e" by simp
    from update_snitch_None_known [OF n k] obtain e1 cfg' where
      u: "update_process_record env (Config s) e p c sha256 ctime
            (reverse_domain_name env (reverse_dns_lookup env (ip c))) = (None, e1, cfg')" and
      q: "Processes (snd (update_snitch env s p c sha256 ctime)) = (Processes s)(exe p \<mapsto> e1)"
      by blast
    from p q x have "e' = e1" by simp
    with update_process_record_None_fields(4,5) [OF u]
    show "last_seen e' = ctime \<and>
          days_seen e' =
            (if take 3 (split_ws ctime) \<noteq> take 3 (split_ws (last_seen e))
             then days_seen e + 1 else days_seen e)"
      by simp
  qed
  show ?thesis
    by (intro exI [of _ e'] conjI p d k)
qed

theorem days_seen_counter_witness:
  "Processes snitch_curl ''curl'' = Some record_curl \<and>
   fst (update_snitch env0 snitch_curl proc_curl conn_80 ''00'' ''Tue Jan  2 00:00:01 2024'') = None \<and>
   map_option days_seen
     (Processes (snd (update_snitch env0 snitch_curl proc_curl conn_80 ''00'' ''Tue Jan  2 00:00:01 2024''))
        ''curl'') = Some 2 \<and>
   map_option days_seen
     (Processes (snd (update_snitch env0 snitch_curl proc_curl conn_80 ''00'' ''Mon Jan  1 23:59:59 2024''))
        ''curl'') = Some 1"
proof -
  have a: "Processes snitch_curl ''curl'' = Some record_curl"
    by (simp add: snitch_curl_def record_curl_def)
  have n: "fst (update_snitch env0 snitch_curl proc_curl conn_80 ''00'' ''Tue Jan  2 00:00:01 2024'') = None"
    "fst (update_snitch env0 snitch_curl proc_curl conn_80 ''00'' ''Mon Jan  1 23:59:59 2024'') = None"
    by (simp_all add: update_snitch_defs example_defs)
  have x: "''curl'' = exe proc_curl" by (simp add: proc_curl_def)
  have l: "last_seen record_curl = ''Mon Jan  1 23:59:59 2024''" "days_seen record_curl = 1"
    by (simp_all add: record_curl_def)
  from days_seen_counter [OF a, of env0 proc_curl conn_80 "''00''" "''Tue Jan  2 00:00:01 2024''"]
  have 1: "map_option days_seen
     (Processes (snd (update_snitch env0 snitch_curl proc_curl conn_80 ''00'' ''Tue Jan  2 00:00:01 2024''))
        ''curl'') = Some 2"
    using n x l by (auto simp: day_tokens)
  from days_seen_counter [OF a, of env0 proc_curl conn_80 "''00''" "''Mon Jan  1 23:59:59 2024''"]
  have 2: "map_option days_seen
     (Processes (snd (update_snitch env0 snitch_curl proc_curl conn_80 ''00'' ''Mon Jan  1 23:59:59 2024''))
        ''curl'') = Some 1"
    using n x l by (auto simp: day_tokens)
  from a n 1 2 show ?thesis by simp
qed

text \<open>
  Claim C7 as stated fails for a call that raises: with a VirusTotal key, the upload on
  and an executable that cannot be opened, \<^verbatim>\<open>get_vt_results\<close> raises at line 299 for a
  new hash, before the day is counted at line 300. The tokens of Monday and Tuesday differ,
  and \<^verbatim>\<open>days seen\<close> and \<^verbatim>\<open>last seen\<close> stay as they were.
\<close>

theorem days_seen_raise_counterexample:
  "Processes snitch_curl_vt ''curl'' = Some record_curl \<and>
   exe proc_curl = ''curl'' \<and>
   take 3 (split_ws (last_seen record_curl)) = [''Mon'', ''Jan'', ''1''] \<and>
   take 3 (split_ws ''Tue Jan  2 00:00:01 2024'') = [''Tue'', ''Jan'', ''2''] \<and>
   fst (update_snitch env0 snitch_curl_vt proc_curl conn_80 (get_sha256 env0 ''curl'')
          ''Tue Jan  2 00:00:01 2024'') = Some (Exn ''FileNotFoundError'' ''()'') \<and>
   map_option days_seen
     (Processes (snd (update_snitch env0 snitch_curl_vt proc_curl conn_80 (get_sha256 env0 ''curl'')
                        ''Tue Jan  2 00:00:01 2024'')) ''curl'') = Some 1 \<and>
   map_option last_seen
     (Processes (snd (update_snitch env0 snitch_curl_vt proc_curl conn_80 (get_sha256 env0 ''curl'')
                        ''Tue Jan  2 00:00:01 2024'')) ''curl'') = Some ''Mon Jan  1 23:59:59 2024''"
  by (simp add: update_snitch_defs example_defs get_sha256_def day_tokens)

section \<open>Port 0 of an event without a connection\<close>



section \<open>An existing key of Remote Addresses\<close>

text \<open>
  Claim C9, as the code has it. When the reversed DNS name is a key of Remote Addresses
  and the executable is not in its list, a call of \<^verbatim>\<open>update_snitch\<close> that returns
  without an exception inserts the executable with \<^verbatim>\<open>insert(1, exe)\<close>, after the first
  element of a list that is not empty, whatever \<^verbatim>\<open>Remote address unlog\<close> holds; the
  sentinel \<^verbatim>\<open>No processes found during polling\<close> is then removed once if it is in the
  list. There is no hypothesis on the unlog list: the filter is not consulted on this path.
\<close>

theorem remote_addresses_existing_key:
  assumes "fst (update_snitch env s p c sha256 ctime) = None"
    and "Remote_Addresses s (reverse_domain_name env (reverse_dns_lookup env (ip c))) = Some l"
    and "exe p \<notin> set l"
  shows "Remote_Addresses (snd (update_snitch env s p c sha256 ctime))
           (reverse_domain_name env (reverse_dns_lookup env (ip c))) =
         Some (if ''No processes found during polling'' \<in> set (list_insert 1 (exe p) l)
               then remove1 ''No processes found during polling'' (list_insert 1 (exe p) l)
               else list_insert 1 (exe p) l) \<and>
         (l \<noteq> [] \<longrightarrow> list_insert 1 (exe p) l = hd l # exe p # tl l)"
proof -
  have "l \<noteq> [] \<longrightarrow> list_insert 1 (exe p) l = hd l # exe p # tl l"
    by (cases l) (simp_all add: list_insert_def)
  then show ?thesis
    using assms(2,3)
    by (simp add: update_snitch_None_Remote_Addresses [OF assms(1)]
          Remote_Addresses_update_remote_addresses)
qed

theorem remote_addresses_existing_key_witness:
  "PyStr (name proc_firefox) \<in> set (Remote_address_unlog (Config snitch_curl)) \<and>
   fst (update_snitch env0 snitch_curl proc_firefox conn_80 ''00'' ''Tue Jan  2 00:00:01 2024'') = None \<and>
   Remote_Addresses snitch_curl ''1.2.3.4'' =
     Some [''First connection: Mon Jan  1 23:59:59 2024'', ''curl''] \<and>
   Remote_Addresses
     (snd (update_snitch env0 snitch_curl proc_firefox conn_80 ''00'' ''Tue Jan  2 00:00:01 2024''))
     ''1.2.3.4'' =
     Some [''First connection: Mon Jan  1 23:59:59 2024'', ''/usr/bin/firefox'', ''curl'']"
proof -
  have h: "fst (update_snitch env0 snitch_curl proc_firefox conn_80 ''00'' ''Tue Jan  2 00:00:01 2024'') = None"
    by (simp add: update_snitch_defs example_defs)
  have r: "reverse_domain_name env0 (reverse_dns_lookup env0 (ip conn_80)) = ''1.2.3.4''"
    by (simp add: reverse_domain_name_def reverse_dns_lookup_def env0_def conn_80_def)
  have l: "Remote_Addresses snitch_curl (reverse_domain_name env0 (reverse_dns_lookup env0 (ip conn_80))) =
             Some [''First connection: Mon Jan  1 23:59:59 2024'', ''curl'']"
    by (simp add: r snitch_curl_def)
  have e: "exe proc_firefox \<notin> set [''First connection: Mon Jan  1 23:59:59 2024'', ''curl'']"
    by (simp add: proc_firefox_def)
  from remote_addresses_existing_key [OF h l e] h l show ?thesis
    by (simp add: r list_insert_def proc_firefox_def snitch_curl_def config0_def)
qed

text \<open>
  Claim C9 as stated fails for a call that raises: \<^verbatim>\<open>get_vt_results\<close> raises at line
  281 for the new executable, lines 304 to 311 are not reached, and the list of the key
  is what it was.
\<close>

theorem remote_addresses_raise_counterexample:
  "Remote_Addresses snitch_curl_vt (reverse_domain_name env0 (reverse_dns_lookup env0 (ip conn_80))) =
     Some [''First connection: Mon Jan  1 23:59:59 2024'', ''curl''] \<and>
   exe proc_firefox \<notin> set [''First connection: Mon Jan  1 23:59:59 2024'', ''curl''] \<and>
   fst (update_snitch env0 snitch_curl_vt proc_firefox conn_80 (get_sha256 env0 ''/usr/bin/firefox'')
          ''Tue Jan  2 00:00:01 2024'') = Some (Exn ''FileNotFoundError'' ''()'') \<and>
   Remote_Addresses
     (snd (update_snitch env0 snitch_curl_vt proc_firefox conn_80 (get_sha256 env0 ''/usr/bin/firefox'')
             ''Tue Jan  2 00:00:01 2024''))
     (reverse_domain_name env0 (reverse_dns_lookup env0 (ip conn_80))) =
     Some [''First connection: Mon Jan  1 23:59:59 2024'', ''curl'']"
  by (simp add: update_snitch_defs example_defs get_sha256_def)

section \<open>The invariant of Names\<close>




section \<open>Compaction of the command lines\<close>



section \<open>A conn event of an unknown pid\<close>

text \<open>
  Claim C1 says that no single conn event makes \<^verbatim>\<open>process_queue\<close> raise. The
  code looks the unknown pid up with \<^verbatim>\<open>psutil.Process\<close> at line 229, outside every
  \<^verbatim>\<open>try\<close>: for the third scenario of the specification, a conn event of pid 999 with no
  such process, the lookup raises NoSuchProcess and the exception leaves
  \<^verbatim>\<open>process_queue\<close>. The event is neither queued nor reported.
\<close>

theorem process_queue_unknown_pid_raises:
  "process_queue env0 ''Mon Jan  1 23:59:59 2024'' snitch0 Map.empty [] [Conn_event 999 80 ''1.2.3.4'']
     = Inl (Exn ''NoSuchProcess'' ''()'')"
  by (simp add: process_queue_def env0_def snitch0_def config0_def)

text \<open>
  When psutil still finds the process, the event is queued once, the ledger is untouched,
  and the descriptor is stored in the table of pids if it has an executable.
\<close>

theorem process_queue_defers_unknown_conn:
  assumes "known_pids (PyInt p) = None" and "psutil_Process_as_dict env p = Inr proc_psutil"
  shows "process_queue env ctime s known_pids [] [Conn_event p po a] =
           Inr (s,
                if exe proc_psutil \<noteq> [] then known_pids(PyInt (pid proc_psutil) \<mapsto> proc_psutil)
                else known_pids,
                [Conn_event p po a])"
  using assms by (simp add: process_queue_def)

theorem process_queue_defers_unknown_conn_witness:
  "process_queue env_live ''Mon Jan  1 23:59:59 2024'' snitch0 Map.empty [] [Conn_event 200 80 ''1.2.3.4''] =
     Inr (snitch0, [PyInt 200 \<mapsto> proc_curl\<lparr>pid := 200\<rparr>], [Conn_event 200 80 ''1.2.3.4''])"
proof -
  have a: "(Map.empty :: pyval \<rightharpoonup> proc) (PyInt 200) = None" by simp
  have b: "psutil_Process_as_dict env_live 200 = Inr (proc_curl\<lparr>pid := 200\<rparr>)"
    by (simp add: env_live_def)
  from process_queue_defers_unknown_conn [OF a b, of "''Mon Jan  1 23:59:59 2024''" snitch0 80 "''1.2.3.4''"]
  show ?thesis by (simp add: proc_curl_def)
qed

text \<open>
  On the next drain the deferred event is enriched and merged when its pid is known by
  then; otherwise exactly one line is appended to Errors and the event is dropped.
\<close>

theorem process_queue_missed_conn:
  "process_queue env ctime s known_pids [Conn_event p po a] [] =
     Inr (case known_pids (PyInt p) of
            Some known \<Rightarrow> update_item env ctime (enrich (Conn_event p po a) known) s
          | None \<Rightarrow> s\<lparr>Errors := Errors s @
                        [ctime @ '' no known process for conn: '' @ str_event env (Conn_event p po a)]\<rparr>,
          known_pids, [])"
  by (simp add: process_queue_def split: option.splits)

theorem process_queue_missed_conn_witness:
  "process_queue env0 ''T'' snitch0 Map.empty [Conn_event 999 80 ''1.2.3.4''] [] =
     Inr (snitch0\<lparr>Errors := [''T no known process for conn: {conn}'']\<rparr>, Map.empty, [])"
  using process_queue_missed_conn [of env0 "''T''" snitch0 Map.empty 999 80 "''1.2.3.4''"]
  by (simp add: env0_def snitch0_def)

section \<open>The table of pids after initial_poll\<close>

text \<open>
  Claim C3 says that every running process with an existing executable is entered
  under its pid. Line 179 writes \<^verbatim>\<open>known_pids["pid"]\<close>, the string, for every
  process: after the snapshot of one process with pid 101 the table has no entry for 101,
  and the descriptor is at the key \<^verbatim>\<open>"pid"\<close>, where \<^verbatim>\<open>process_queue\<close>, which looks
  pids up as integers, never finds it.
\<close>

theorem initial_poll_pid_key:
  "snd (initial_poll env0 ''Mon Jan  1 23:59:59 2024'' [proc_firefox] [] snitch0 Map.empty) (PyInt 101) = None \<and>
   snd (initial_poll env0 ''Mon Jan  1 23:59:59 2024'' [proc_firefox] [] snitch0 Map.empty) (PyStr ''pid'')
     = Some proc_firefox \<and>
   pid proc_firefox = 101 \<and> os_path_isfile env0 (exe proc_firefox)"
  by (simp add: initial_poll_def env0_def snitch0_def config0_def proc_firefox_def)

text \<open>In general \<^verbatim>\<open>initial_poll\<close> changes the table at no other key than the string.\<close>

theorem initial_poll_known_pids:
  "k \<noteq> PyStr ''pid'' \<Longrightarrow>
     snd (initial_poll env ctime running current_connections s known_pids) k = known_pids k"
  using poll_processes_known_pids [of k env running "[]" known_pids]
  by (auto simp: initial_poll_def split: prod.splits)

theorem initial_poll_known_pids_witness:
  "PyInt 101 \<noteq> PyStr ''pid'' \<and> pid proc_firefox = 101 \<and>
   snd (initial_poll env0 ''T'' [proc_firefox] [] snitch0 Map.empty) (PyInt 101) = None"
  using initial_poll_known_pids [of "PyInt 101" env0 "''T''" "[proc_firefox]" "[]" snitch0 Map.empty]
  by (simp add: proc_firefox_def)

section \<open>The Supervisor restarts a dead Producer\<close>

text \<open>
  Claim C4, as the code has it. In a turn of the loop in which the Producer is dead at
  the health check, the difference \<^verbatim>\<open>time.time() - time_last_start\<close> that line 443
  computes is more than 300, the parent is alive and \<^verbatim>\<open>q_term\<close> stays empty, the
  Supervisor starts a fresh Producer, stores the time of the start and reports the restart
  on \<^verbatim>\<open>q_error\<close>; it stays in its loop when the fresh Producer is alive at the end of the
  wait and leaves it otherwise.
\<close>

theorem restart_after_death:
  assumes "\<not> sub_is_alive ob" and "time_difference ob > 300"
    and "parent_is_alive ob" and "q_term_get ob = None"
  shows "monitor_iteration ob m =
           (if sub_is_alive_after ob then Continue else Break, restart_dead ob m) \<and>
         started (restart_dead ob m) = started m + 1 \<and>
         time_last_start (restart_dead ob m) = time_started ob \<and>
         q_error (restart_dead ob m) = q_error m @ [''Snitch subprocess died, restarting snitch'']"
  using assms
  by (simp add: monitor_iteration_def health_check_def wait_term_def restart_dead_def)

theorem restart_after_death_witness:
  "\<not> sub_is_alive ob_dead_301 \<and> time_difference ob_dead_301 > 300 \<and>
   parent_is_alive ob_dead_301 \<and> q_term_get ob_dead_301 = None \<and>
   monitor_iteration ob_dead_301 monitor0 =
     (Continue, \<lparr>started = 2, terminated = [], time_last_start = 301,
                 q_error = [''Snitch subprocess died, restarting snitch'']\<rparr>)"
proof -
  have a: "\<not> sub_is_alive ob_dead_301" "time_difference ob_dead_301 > 300"
    "parent_is_alive ob_dead_301" "q_term_get ob_dead_301 = None"
    by (simp_all add: ob_dead_301_def monitor0_def)
  from restart_after_death [OF a] a show ?thesis
    by (simp add: ob_dead_301_def monitor0_def restart_dead_def)
qed

text \<open>
  Claim C4 as stated fails when the computed difference is exactly 300: line 443 asks for
  more than 300, so nothing is started, and since the Producer is dead the Supervisor
  leaves its loop and returns 0.
\<close>

theorem restart_at_300_counterexample:
  "\<not> sub_is_alive ob_dead_300 \<and> time_difference ob_dead_300 = 300 \<and>
   parent_is_alive ob_dead_300 \<and> q_term_get ob_dead_300 = None \<and>
   monitor_iteration ob_dead_300 monitor0 = (Break, monitor0) \<and>
   snitch_monitor True 0 [ob_dead_300] =
     (Returned 0, \<lparr>started = 1, terminated = [1], time_last_start = 0, q_error = []\<rparr>)"
  by (simp add: ob_dead_300_def monitor0_def monitor_iteration_def health_check_def wait_term_def
        snitch_monitor_def)

section \<open>Calls of update_snitch that return\<close>

text \<open>
  The claims above about a call of \<^verbatim>\<open>update_snitch\<close> that returns without an exception
  are about every call when no VirusTotal key is configured, as in the template, and
  difflib answers with strings of the list it was given: such a call never raises.
\<close>

theorem update_snitch_returns:
  assumes "VT_API_key (Config s) = []"
    and "\<And>e. Processes s (exe p) = Some e \<Longrightarrow>
           set (difflib_get_close_matches env (str_cmdline env (cmdline p)) (cmdlines e) 1 (8 / 10))
             \<subseteq> set (cmdlines e)"
  shows "fst (update_snitch env s p c sha256 ctime) = None"
proof (cases "Processes s (exe p)")
  case None
  then show ?thesis
    by (simp add: update_snitch_fst update_processes_def update_names_frame update_latest_entries_frame
          new_process_record_def get_vt_results_no_key [OF assms(1)] Let_def)
next
  case (Some e)
  obtain y e1 cfg1 where
    n: "update_process_record env (Config s) e p c sha256 ctime
          (reverse_domain_name env (reverse_dns_lookup env (ip c))) = (y, e1, cfg1)"
    by (cases "update_process_record env (Config s) e p c sha256 ctime
          (reverse_domain_name env (reverse_dns_lookup env (ip c)))")
  from update_process_record_returns [OF assms(1) assms(2) [OF Some], of c sha256 ctime
      "reverse_domain_name env (reverse_dns_lookup env (ip c))"] n
  have "y = None" by simp
  with Some n show ?thesis
    by (simp add: update_snitch_fst update_processes_def update_names_frame update_latest_entries_frame)
qed

theorem update_snitch_returns_witness:
  "VT_API_key (Config snitch_app) = [] \<and>
   Processes snitch_app (exe proc_app) = Some record_app \<and>
   set (difflib_get_close_matches env_difflib (str_cmdline env_difflib (cmdline proc_app))
          (cmdlines record_app) 1 (8 / 10)) \<subseteq> set (cmdlines record_app) \<and>
   fst (update_snitch env_difflib snitch_app proc_app conn_80 ''00'' ''Tue Jan  2 00:00:01 2024'') = None"
proof -
  have a: "VT_API_key (Config snitch_app) = []" by (simp add: snitch_app_def config0_def)
  have k: "Processes snitch_app (exe proc_app) = Some record_app"
    by (simp add: snitch_app_def proc_app_def)
  have b: "set (difflib_get_close_matches env_difflib (str_cmdline env_difflib (cmdline proc_app))
          (cmdlines record_app) 1 (8 / 10)) \<subseteq> set (cmdlines record_app)"
    by (simp add: env_difflib_def env0_def record_app_def)
  have "set (difflib_get_close_matches env_difflib (str_cmdline env_difflib (cmdline proc_app))
          (cmdlines e) 1 (8 / 10)) \<subseteq> set (cmdlines e)"
    if "Processes snitch_app (exe proc_app) = Some e" for e
    using that k b by simp
  from update_snitch_returns [OF a this] a k b show ?thesis by simp
qed

end
